theory Spec2Isabelle
  imports Complex_Main "HOL-Library.Word" "HOL-Library.Log_Nat"
begin

section \<open>Python text\<close>

text \<open>
  A Python \<^verbatim>\<open>str\<close> is a sequence of Unicode code points, so text is a list of
  natural numbers; \<open>ascii\<close> turns an ASCII literal into its code points.
\<close>

type_synonym ustring = "nat list"

definition ascii :: "string \<Rightarrow> ustring" where
  "ascii s = map of_char s"

text \<open>\<^verbatim>\<open>needle in haystack\<close> on two \<^verbatim>\<open>str\<close> values: the substring test.\<close>

fun startswith :: "'a list \<Rightarrow> 'a list \<Rightarrow> bool" where
  "startswith [] ys = True"
| "startswith (x # xs) [] = False"
| "startswith (x # xs) (y # ys) = (x = y \<and> startswith xs ys)"

fun py_in :: "'a list \<Rightarrow> 'a list \<Rightarrow> bool" where
  "py_in xs [] = (xs = [])"
| "py_in xs (y # ys) = (startswith xs (y # ys) \<or> py_in xs ys)"

text \<open>\<^verbatim>\<open>sep.join(parts)\<close>.\<close>

fun py_join :: "ustring \<Rightarrow> ustring list \<Rightarrow> ustring" where
  "py_join sep [] = []"
| "py_join sep [p] = p"
| "py_join sep (p # q # ps) = p @ sep @ py_join sep (q # ps)"

subsection \<open>The part of the Unicode character database that is modelled\<close>

text \<open>
  \<^verbatim>\<open>str.strip\<close>, \<^verbatim>\<open>str.lower\<close>, \<^verbatim>\<open>str.upper\<close> and the module \<^verbatim>\<open>unicodedata\<close> are
  Python's; their tables are written out here for the code points U+0000 to U+00FF
  (ASCII and Latin-1, which covers Catalan and Spanish text) and for the combining
  diacritical marks U+0300 to U+036F. The white-space set is the complete one of
  \<^verbatim>\<open>str.isspace\<close>. Every other code point is treated as having no case mapping, no
  decomposition and combining class 0.
\<close>

definition py_isspace :: "nat \<Rightarrow> bool" where
  "py_isspace c \<longleftrightarrow>
     (9 \<le> c \<and> c \<le> 13) \<or> (28 \<le> c \<and> c \<le> 32) \<or> c = 133 \<or> c = 160 \<or> c = 5760 \<or>
     (8192 \<le> c \<and> c \<le> 8202) \<or> c = 8232 \<or> c = 8233 \<or> c = 8239 \<or> c = 8287 \<or>
     c = 12288"

definition py_strip :: "ustring \<Rightarrow> ustring" where
  "py_strip s = rev (dropWhile py_isspace (rev (dropWhile py_isspace s)))"

definition lower_cp :: "nat \<Rightarrow> nat" where
  "lower_cp c =
     (if (65 \<le> c \<and> c \<le> 90) \<or> (192 \<le> c \<and> c \<le> 222 \<and> c \<noteq> 215) then c + 32 else c)"

definition py_lower :: "ustring \<Rightarrow> ustring" where
  "py_lower s = map lower_cp s"

text \<open>
  \<^verbatim>\<open>str.upper\<close>: three Latin-1 letters leave Latin-1 or grow (the micro sign becomes
  U+039C, sharp s becomes \<^verbatim>\<open>SS\<close>, y with diaeresis becomes U+0178).
\<close>

definition upper_cp :: "nat \<Rightarrow> ustring" where
  "upper_cp c =
     (if (97 \<le> c \<and> c \<le> 122) \<or> (224 \<le> c \<and> c \<le> 254 \<and> c \<noteq> 247) then [c - 32]
      else if c = 181 then [924]
      else if c = 223 then [83, 83]
      else if c = 255 then [376]
      else [c])"

definition py_upper :: "ustring \<Rightarrow> ustring" where
  "py_upper s = concat (map upper_cp s)"

text \<open>
  The full compatibility decomposition (NFKD) of each code point that has one. The
  canonical reordering that NFKD performs afterwards only permutes combining marks;
  \<open>norm_text\<close> deletes all of them in its next step, so the reordering is left out.
\<close>

definition nfkd_table :: "(nat \<times> ustring) list" where
  "nfkd_table =
    [(160, [32]), (168, [32, 776]), (170, [97]), (175, [32, 772]), (178, [50]),
     (179, [51]), (180, [32, 769]), (181, [956]), (184, [32, 807]), (185, [49]),
     (186, [111]), (188, [49, 8260, 52]), (189, [49, 8260, 50]), (190, [51, 8260, 52]),
     (192, [65, 768]), (193, [65, 769]), (194, [65, 770]), (195, [65, 771]),
     (196, [65, 776]), (197, [65, 778]), (199, [67, 807]), (200, [69, 768]),
     (201, [69, 769]), (202, [69, 770]), (203, [69, 776]), (204, [73, 768]),
     (205, [73, 769]), (206, [73, 770]), (207, [73, 776]), (209, [78, 771]),
     (210, [79, 768]), (211, [79, 769]), (212, [79, 770]), (213, [79, 771]),
     (214, [79, 776]), (217, [85, 768]), (218, [85, 769]), (219, [85, 770]),
     (220, [85, 776]), (221, [89, 769]), (224, [97, 768]), (225, [97, 769]),
     (226, [97, 770]), (227, [97, 771]), (228, [97, 776]), (229, [97, 778]),
     (231, [99, 807]), (232, [101, 768]), (233, [101, 769]), (234, [101, 770]),
     (235, [101, 776]), (236, [105, 768]), (237, [105, 769]), (238, [105, 770]),
     (239, [105, 776]), (241, [110, 771]), (242, [111, 768]), (243, [111, 769]),
     (244, [111, 770]), (245, [111, 771]), (246, [111, 776]), (249, [117, 768]),
     (250, [117, 769]), (251, [117, 770]), (252, [117, 776]), (253, [121, 769]),
     (255, [121, 776]),
     (832, [768]), (833, [769]), (835, [787]), (836, [776, 769])]"

definition nfkd_cp :: "nat \<Rightarrow> ustring" where
  "nfkd_cp c = (case map_of nfkd_table c of Some d \<Rightarrow> d | None \<Rightarrow> [c])"

definition nfkd :: "ustring \<Rightarrow> ustring" where
  "nfkd s = concat (map nfkd_cp s)"

text \<open>\<^verbatim>\<open>unicodedata.combining(ch)\<close> is non-zero.\<close>

definition combining :: "nat \<Rightarrow> bool" where
  "combining c \<longleftrightarrow> 768 \<le> c \<and> c \<le> 879 \<and> c \<noteq> 847"

section \<open>Text normalizer and space classifier\<close>

text \<open>
  \<^verbatim>\<open>_norm_text\<close>. The argument is an attribute of an IFC entity: a \<^verbatim>\<open>str\<close> or
  \<^verbatim>\<open>None\<close>, so \<^verbatim>\<open>str(value)\<close> is the value itself.
\<close>

definition norm_text :: "ustring option \<Rightarrow> ustring" where
  "norm_text v =
     (case v of
        None \<Rightarrow> []
      | Some s \<Rightarrow> filter (\<lambda>ch. \<not> combining ch) (nfkd (py_lower (py_strip s))))"

text \<open>
  \<^verbatim>\<open>SPACE_KEYWORDS\<close>: a \<^verbatim>\<open>dict\<close> literal, iterated in insertion order, so an
  association list.
\<close>

definition SPACE_KEYWORDS :: "(ustring \<times> ustring list) list" where
  "SPACE_KEYWORDS =
    [(ascii ''Living Room'',
        map ascii [''living'', ''lounge'', ''sala'', ''salon'', ''estar'', ''menjador'']),
     (ascii ''Bedroom'',
        map ascii [''bedroom'', ''bed'', ''dorm'', ''habitacio'', ''habitacio'', ''dormitori'']),
     (ascii ''Kitchen'', map ascii [''kitchen'', ''cuina'', ''cocina'']),
     (ascii ''Bathroom'',
        map ascii [''bath'', ''bathroom'', ''toilet'', ''wc'', ''lavabo'', ''aseo'', ''bany'']),
     (ascii ''Corridor'',
        map ascii [''corridor'', ''hall'', ''pasillo'', ''passage'', ''rebedor'', ''distrib''])]"

text \<open>The three free-text fields of a space that the classifier reads.\<close>

record space_names =
  Name :: "ustring option"
  LongName :: "ustring option"
  ObjectType :: "ustring option"

definition haystack :: "'a space_names_scheme \<Rightarrow> ustring" where
  "haystack space =
     py_join (ascii '' '')
       [norm_text (Name space), norm_text (LongName space), norm_text (ObjectType space)]"

text \<open>The inner loop of \<^verbatim>\<open>_get_space_type\<close>: does some keyword of the list occur?\<close>

fun keyword_hit :: "ustring list \<Rightarrow> ustring \<Rightarrow> bool" where
  "keyword_hit [] h = False"
| "keyword_hit (keyword # keywords) h = (if py_in keyword h then True else keyword_hit keywords h)"

text \<open>The outer loop: the first space type with a hit is returned, \<open>None\<close> after the loop.\<close>

fun scan_space_types :: "(ustring \<times> ustring list) list \<Rightarrow> ustring \<Rightarrow> ustring option" where
  "scan_space_types [] h = None"
| "scan_space_types ((space_type, keywords) # rest) h =
     (if keyword_hit keywords h then Some space_type else scan_space_types rest h)"

definition get_space_type :: "'a space_names_scheme \<Rightarrow> ustring option" where
  "get_space_type space = scan_space_types SPACE_KEYWORDS (haystack space)"

section \<open>Python numbers\<close>

text \<open>
  A Python \<^verbatim>\<open>float\<close> is an IEEE 754 double: a finite value is the rational number it
  denotes, and the two infinities and NaN are values of their own. The sign of zero is
  not represented (\<^verbatim>\<open>-0.0\<close> and \<^verbatim>\<open>0.0\<close> compare equal in Python and differ only in
  how they print).
\<close>

datatype pyfloat = Finite rat | PosInf | NegInf | NaN

text \<open>Rounding to the nearest integer, ties to the even one.\<close>

definition round_half_even :: "rat \<Rightarrow> int" where
  "round_half_even x =
     (let f = \<lfloor>x\<rfloor>; r = x - of_int f in
      if r < 1 / 2 then f else if 1 / 2 < r then f + 1 else if even f then f else f + 1)"

fun ilog2 :: "nat \<Rightarrow> nat" where
  "ilog2 n = (if n < 2 then 0 else Suc (ilog2 (n div 2)))"

declare ilog2.simps [simp del]

definition pow2 :: "int \<Rightarrow> rat" where
  "pow2 e = (if 0 \<le> e then 2 ^ nat e else 1 / 2 ^ nat (- e))"

text \<open>For \<open>0 < x\<close>, the exponent \<open>e\<close> with \<open>2 ^ e \<le> x < 2 ^ (e + 1)\<close>.\<close>

definition floor_log2 :: "rat \<Rightarrow> int" where
  "floor_log2 x =
     (if 1 \<le> x then int (ilog2 (nat \<lfloor>x\<rfloor>))
      else - (int (ilog2 (nat \<lceil>1 / x\<rceil> - 1)) + 1))"

text \<open>
  \<open>fl x\<close> is the double nearest to \<open>x\<close> (round to nearest, ties to even): 53 significant
  bits, exponents from \<open>-1022\<close> (below which the spacing stays \<open>2 ^ -1074\<close>) to \<open>1023\<close>
  (above which the result is an infinity). Float literals, \<^verbatim>\<open>int / int\<close>, float
  multiplication, \<^verbatim>\<open>float(int)\<close> and \<^verbatim>\<open>round\<close> all round their exact result this way.
\<close>

definition fl :: "rat \<Rightarrow> pyfloat" where
  "fl x =
     (if x = 0 then Finite 0
      else
        let e = max (floor_log2 \<bar>x\<bar>) (- 1022);
            q = pow2 (e - 52);
            m = round_half_even (x / q)
        in if 1023 < e \<or> (e = 1023 \<and> \<bar>m\<bar> = 2 ^ 53) then (if 0 < x then PosInf else NegInf)
           else Finite (of_int m * q))"

text \<open>\<^verbatim>\<open>a < b\<close> on floats: false whenever an operand is NaN.\<close>

fun float_less :: "pyfloat \<Rightarrow> pyfloat \<Rightarrow> bool" where
  "float_less NaN b = False"
| "float_less a NaN = False"
| "float_less (Finite x) (Finite y) = (x < y)"
| "float_less (Finite x) PosInf = True"
| "float_less (Finite x) NegInf = False"
| "float_less PosInf b = False"
| "float_less NegInf NegInf = False"
| "float_less NegInf b = True"

text \<open>
  \<^verbatim>\<open>a * b\<close> on floats, \<^verbatim>\<open>p / q\<close> on two non-negative ints with \<open>q \<noteq> 0\<close> (the one
  division of the source, guarded by \<^verbatim>\<open>total_checked > 0\<close>), and \<^verbatim>\<open>round(x, n)\<close>, which
  rounds the exact value of \<open>x\<close> to \<open>n\<close> decimals, ties to even, and returns the double
  nearest to that decimal.
\<close>

fun float_mul :: "pyfloat \<Rightarrow> pyfloat \<Rightarrow> pyfloat" where
  "float_mul (Finite x) (Finite y) = fl (x * y)"
| "float_mul NaN b = NaN"
| "float_mul a NaN = NaN"
| "float_mul (Finite x) b =
     (if x = 0 then NaN else if (0 < x) = (b = PosInf) then PosInf else NegInf)"
| "float_mul a (Finite y) =
     (if y = 0 then NaN else if (0 < y) = (a = PosInf) then PosInf else NegInf)"
| "float_mul a b = (if a = b then PosInf else NegInf)"

definition int_truediv :: "nat \<Rightarrow> nat \<Rightarrow> pyfloat" where
  "int_truediv p q = fl (of_nat p / of_nat q)"

definition py_round :: "pyfloat \<Rightarrow> nat \<Rightarrow> pyfloat" where
  "py_round x n =
     (case x of
        Finite r \<Rightarrow> fl (of_int (round_half_even (r * 10 ^ n)) / 10 ^ n)
      | _ \<Rightarrow> x)"

text \<open>\<^verbatim>\<open>str(n)\<close> for a non-negative int, and \<^verbatim>\<open>f"{x:.{digits}f}"\<close>.\<close>

fun str_nat :: "nat \<Rightarrow> ustring" where
  "str_nat n = (if n < 10 then [48 + n] else str_nat (n div 10) @ [48 + n mod 10])"

declare str_nat.simps [simp del]

definition format_f :: "nat \<Rightarrow> pyfloat \<Rightarrow> ustring" where
  "format_f digits x =
     (case x of
        NaN \<Rightarrow> ascii ''nan''
      | PosInf \<Rightarrow> ascii ''inf''
      | NegInf \<Rightarrow> ascii ''-inf''
      | Finite r \<Rightarrow>
          (let n = nat (round_half_even (\<bar>r\<bar> * 10 ^ digits));
               whole = str_nat (n div 10 ^ digits);
               frac = str_nat (n mod 10 ^ digits)
           in (if r < 0 then ascii ''-'' else []) @ whole @
              (if digits = 0 then []
               else ascii ''.'' @ replicate (digits - length frac) 48 @ frac)))"

section \<open>Python values and numeric coercion\<close>

text \<open>
  The values that reach \<^verbatim>\<open>_to_float\<close>. A \<^verbatim>\<open>str\<close> is represented by what the builtin
  \<^verbatim>\<open>float\<close> makes of its text: \<open>Some f\<close> when the text is a float literal, \<open>None\<close> when
  \<^verbatim>\<open>float\<close> raises \<^verbatim>\<open>ValueError\<close>. \<open>PyObject w\<close> is any other object, which \<^verbatim>\<open>float\<close>
  rejects with \<^verbatim>\<open>TypeError\<close>; \<open>w\<close> is its \<^verbatim>\<open>wrappedValue\<close> attribute when it has one.
\<close>

datatype pyval =
    PyNone
  | PyFloat pyfloat
  | PyInt int
  | PyBool bool
  | PyStr "pyfloat option"
  | PyObject "pyval option"

datatype exn = TypeError | ValueError | OverflowError

text \<open>
  The builtin \<^verbatim>\<open>float(value)\<close>. An int converts to the nearest double and raises
  \<^verbatim>\<open>OverflowError\<close> when that is out of range.
\<close>

fun py_float :: "pyval \<Rightarrow> exn + pyfloat" where
  "py_float PyNone = Inl TypeError"
| "py_float (PyFloat f) = Inr f"
| "py_float (PyInt n) =
     (case fl (of_int n) of Finite r \<Rightarrow> Inr (Finite r) | _ \<Rightarrow> Inl OverflowError)"
| "py_float (PyBool b) = Inr (Finite (if b then 1 else 0))"
| "py_float (PyStr parsed) = (case parsed of Some f \<Rightarrow> Inr f | None \<Rightarrow> Inl ValueError)"
| "py_float (PyObject w) = Inl TypeError"

text \<open>\<^verbatim>\<open>getattr(value, "wrappedValue", None)\<close>.\<close>

fun get_wrappedValue :: "pyval \<Rightarrow> pyval" where
  "get_wrappedValue (PyObject (Some w)) = w"
| "get_wrappedValue v = PyNone"

text \<open>
  \<^verbatim>\<open>_to_float\<close>. Both \<^verbatim>\<open>try\<close> blocks catch \<^verbatim>\<open>TypeError\<close> and \<^verbatim>\<open>ValueError\<close> only; any
  other exception leaves the function.
\<close>

definition to_float :: "pyval \<Rightarrow> exn + pyfloat option" where
  "to_float v =
     (if v = PyNone then Inr None
      else
        case py_float v of
          Inr f \<Rightarrow> Inr (Some f)
        | Inl e \<Rightarrow>
            if e = TypeError \<or> e = ValueError then
              (let wrapped = get_wrappedValue v in
               if wrapped \<noteq> PyNone then
                 (case py_float wrapped of
                    Inr f \<Rightarrow> Inr (Some f)
                  | Inl e' \<Rightarrow> if e' = TypeError \<or> e' = ValueError then Inr None else Inl e')
               else Inr None)
            else Inl e)"

section \<open>The IFC model as the toolkit presents it\<close>

text \<open>
  The model comes from the IFC toolkit (\<^verbatim>\<open>ifcopenshell\<close>), which is not part of the
  repository. An attribute value is unset (\<^verbatim>\<open>None\<close>), a plain Python value, or an
  instance of a simple IFC type that carries the value in \<^verbatim>\<open>wrappedValue\<close> (or another
  instance, without it). The toolkit reads IFC integers into machine ints, so an int
  has at most 64 bits.
\<close>

datatype ifc_simple =
    IfcReal pyfloat
  | IfcInteger "64 word"
  | IfcText "pyfloat option"
  | IfcBoolean bool

datatype ifc_value = Unset | Plain ifc_simple | Instance "ifc_simple option"

fun py_of_simple :: "ifc_simple \<Rightarrow> pyval" where
  "py_of_simple (IfcReal f) = PyFloat f"
| "py_of_simple (IfcInteger w) = PyInt (sint w)"
| "py_of_simple (IfcText parsed) = PyStr parsed"
| "py_of_simple (IfcBoolean b) = PyBool b"

fun py_of_value :: "ifc_value \<Rightarrow> pyval" where
  "py_of_value Unset = PyNone"
| "py_of_value (Plain x) = py_of_simple x"
| "py_of_value (Instance w) = PyObject (map_option py_of_simple w)"

text \<open>
  Physical quantities by class (\<^verbatim>\<open>is_a\<close>): an area quantity has \<^verbatim>\<open>AreaValue\<close>, a
  length quantity \<^verbatim>\<open>LengthValue\<close>, the other classes (volume, count, weight, time)
  have neither. A property has a name and, when it is a single-value property, a
  \<^verbatim>\<open>NominalValue\<close>.
\<close>

datatype quantity =
    IfcQuantityArea "ustring option" ifc_value
  | IfcQuantityLength "ustring option" ifc_value
  | IfcQuantityOther "ustring option"

record property =
  p_Name :: "ustring option"
  NominalValue :: ifc_value

datatype property_definition =
    IfcElementQuantity "quantity list"
  | IfcPropertySet "property list"
  | OtherDefinition

datatype relationship =
    IfcRelDefinesByProperties "property_definition option"
  | OtherRelationship

record space = space_names +
  GlobalId :: "ustring option"
  express_id :: nat
  IsDefinedBy :: "relationship list"

text \<open>\<^verbatim>\<open>model.by_type("IfcSpace")\<close> is all the checker reads of the model.\<close>

record model =
  spaces :: "space list"

section \<open>Quantity extractor\<close>

definition QTO_AREA_NAMES :: "ustring list" where
  "QTO_AREA_NAMES = map ascii [''netfloorarea'', ''grossfloorarea'', ''floorarea'']"

definition QTO_HEIGHT_NAMES :: "ustring list" where
  "QTO_HEIGHT_NAMES = map ascii [''height'', ''clearheight'', ''netheight'']"

text \<open>
  \<^verbatim>\<open>_iter_property_defs\<close>: the property definitions of the space's
  \<^verbatim>\<open>IfcRelDefinesByProperties\<close> relationships, in order. The elements of an IFC
  aggregate are entity instances, never \<^verbatim>\<open>None\<close>, so the guards \<^verbatim>\<open>not rel\<close> and
  \<^verbatim>\<open>not q\<close> never fire.
\<close>

fun property_defs_of :: "relationship list \<Rightarrow> property_definition list" where
  "property_defs_of [] = []"
| "property_defs_of (IfcRelDefinesByProperties (Some prop_def) # rels) =
     prop_def # property_defs_of rels"
| "property_defs_of (rel # rels) = property_defs_of rels"

definition iter_property_defs :: "space \<Rightarrow> property_definition list" where
  "iter_property_defs space = property_defs_of (IsDefinedBy space)"

text \<open>
  \<^verbatim>\<open>_extract_area_m2\<close> and \<^verbatim>\<open>_extract_height_m\<close> are the same code up to three
  constants: the quantity class with its value attribute, the set of quantity names and
  the property keyword. One definition takes them through \<open>measure\<close>.
\<close>

datatype measure = AreaMeasure | HeightMeasure

fun quantity_of :: "measure \<Rightarrow> quantity \<Rightarrow> (ustring option \<times> ifc_value) option" where
  "quantity_of AreaMeasure (IfcQuantityArea qname v) = Some (qname, v)"
| "quantity_of HeightMeasure (IfcQuantityLength qname v) = Some (qname, v)"
| "quantity_of m q = None"

fun qto_names :: "measure \<Rightarrow> ustring list" where
  "qto_names AreaMeasure = QTO_AREA_NAMES"
| "qto_names HeightMeasure = QTO_HEIGHT_NAMES"

fun pset_keyword :: "measure \<Rightarrow> ustring" where
  "pset_keyword AreaMeasure = ascii ''area''"
| "pset_keyword HeightMeasure = ascii ''height''"

text \<open>
  Each loop returns \<open>Some r\<close> when it leaves the function with \<open>r\<close> (a returned value
  \<open>Inr\<close> or a raised exception \<open>Inl\<close>) and \<open>None\<close> when it runs to its end.
\<close>

fun scan_quantities :: "measure \<Rightarrow> quantity list \<Rightarrow> (exn + pyfloat option) option" where
  "scan_quantities m [] = None"
| "scan_quantities m (q # qs) =
     (case quantity_of m q of
        None \<Rightarrow> scan_quantities m qs
      | Some (qname, v) \<Rightarrow>
          if norm_text qname \<in> set (qto_names m) then Some (to_float (py_of_value v))
          else scan_quantities m qs)"

fun scan_element_quantities ::
  "measure \<Rightarrow> property_definition list \<Rightarrow> (exn + pyfloat option) option" where
  "scan_element_quantities m [] = None"
| "scan_element_quantities m (IfcElementQuantity qs # prop_defs) =
     (case scan_quantities m qs of
        Some r \<Rightarrow> Some r
      | None \<Rightarrow> scan_element_quantities m prop_defs)"
| "scan_element_quantities m (prop_def # prop_defs) = scan_element_quantities m prop_defs"

fun scan_properties :: "measure \<Rightarrow> property list \<Rightarrow> (exn + pyfloat option) option" where
  "scan_properties m [] = None"
| "scan_properties m (prop # props) =
     (if \<not> py_in (pset_keyword m) (norm_text (p_Name prop)) then scan_properties m props
      else
        case to_float (py_of_value (NominalValue prop)) of
          Inl e \<Rightarrow> Some (Inl e)
        | Inr None \<Rightarrow> scan_properties m props
        | Inr (Some val) \<Rightarrow> Some (Inr (Some val)))"

fun scan_property_sets ::
  "measure \<Rightarrow> property_definition list \<Rightarrow> (exn + pyfloat option) option" where
  "scan_property_sets m [] = None"
| "scan_property_sets m (IfcPropertySet props # prop_defs) =
     (case scan_properties m props of
        Some r \<Rightarrow> Some r
      | None \<Rightarrow> scan_property_sets m prop_defs)"
| "scan_property_sets m (prop_def # prop_defs) = scan_property_sets m prop_defs"

definition extract_measure :: "measure \<Rightarrow> space \<Rightarrow> exn + pyfloat option" where
  "extract_measure m space =
     (case scan_element_quantities m (iter_property_defs space) of
        Some r \<Rightarrow> r
      | None \<Rightarrow>
          (case scan_property_sets m (iter_property_defs space) of
             Some r \<Rightarrow> r
           | None \<Rightarrow> Inr None))"

definition extract_area_m2 :: "space \<Rightarrow> exn + pyfloat option" where
  "extract_area_m2 space = extract_measure AreaMeasure space"

definition extract_height_m :: "space \<Rightarrow> exn + pyfloat option" where
  "extract_height_m space = extract_measure HeightMeasure space"

section \<open>Compliance evaluator\<close>

text \<open>\<^verbatim>\<open>SPACE_RULES\<close>; a float literal denotes the double nearest to its decimal.\<close>

record rule =
  min_height :: pyfloat
  min_area :: pyfloat

definition SPACE_RULES :: "(ustring \<times> rule) list" where
  "SPACE_RULES =
    [(ascii ''Living Room'', \<lparr>min_height = fl (26 / 10), min_area = fl 16\<rparr>),
     (ascii ''Bedroom'', \<lparr>min_height = fl (26 / 10), min_area = fl 9\<rparr>),
     (ascii ''Kitchen'', \<lparr>min_height = fl (26 / 10), min_area = fl 8\<rparr>),
     (ascii ''Bathroom'', \<lparr>min_height = fl (23 / 10), min_area = fl 4\<rparr>),
     (ascii ''Corridor'', \<lparr>min_height = fl (23 / 10), min_area = fl (15 / 10)\<rparr>)]"

text \<open>\<^verbatim>\<open>_format_decimal\<close> with its default of three digits.\<close>

definition format_decimal :: "pyfloat option \<Rightarrow> ustring" where
  "format_decimal v = (case v of None \<Rightarrow> ascii ''None'' | Some x \<Rightarrow> format_f 3 x)"

text \<open>
  The result row. The \<^verbatim>\<open>log\<close> entry holds the text \<^verbatim>\<open>json.dumps\<close> makes of a dict;
  the model keeps the dict (the serialisation to text is not modelled).
\<close>

record space_log =
  log_space :: ustring
  log_space_type :: "ustring option"
  area_m2 :: "pyfloat option"
  height_m :: "pyfloat option"
  min_area_m2 :: "pyfloat option"
  min_height_m :: "pyfloat option"
  log_status :: ustring
  log_reasons :: "ustring list"

record summary_log =
  total_spaces_input :: nat
  total_spaces_checked :: nat
  passed_count :: nat
  failed_count :: nat
  warnings_count :: nat
  compliance_rate_percent :: pyfloat

datatype log_payload = SpaceLog space_log | SummaryLog summary_log

record result =
  element_id :: "ustring option"
  element_type :: ustring
  element_name :: ustring
  element_name_long :: "ustring option"
  check_status :: ustring
  actual_value :: ustring
  required_value :: ustring
  comment :: "ustring option"
  log_json :: "log_payload option"

text \<open>Truth value of an optional \<^verbatim>\<open>str\<close>: \<^verbatim>\<open>None\<close> and the empty text are false.\<close>

fun truthy :: "ustring option \<Rightarrow> bool" where
  "truthy None = False"
| "truthy (Some s) = (s \<noteq> [])"

text \<open>
  Lines 208 to 230 of the loop body: the reasons list with the two required values.
  The three steps append to \<^verbatim>\<open>reasons\<close> in this order.
\<close>

definition type_reasons :: "ustring option \<Rightarrow> ustring list \<times> pyfloat option \<times> pyfloat option" where
  "type_reasons space_type =
     (if \<not> truthy space_type then ([ascii ''Could not infer space type''], None, None)
      else
        case map_of SPACE_RULES (the space_type) of
          None \<Rightarrow> ([ascii ''Unrecognized space type: '' @ the space_type], None, None)
        | Some rule \<Rightarrow> ([], Some (min_area rule), Some (min_height rule)))"

definition area_reasons :: "pyfloat option \<Rightarrow> pyfloat option \<Rightarrow> ustring list" where
  "area_reasons area required_area =
     (case area of
        None \<Rightarrow> [ascii ''Area not found.'']
      | Some a \<Rightarrow>
          (case required_area of
             None \<Rightarrow> []
           | Some ra \<Rightarrow>
               if float_less a ra then
                 [ascii ''Area '' @ format_f 3 a @ ascii '' m2 < required '' @ format_f 3 ra @
                  ascii '' m2.'']
               else []))"

definition height_reasons :: "pyfloat option \<Rightarrow> pyfloat option \<Rightarrow> ustring list" where
  "height_reasons height required_height =
     (case height of
        None \<Rightarrow> [ascii ''Height not found.'']
      | Some h \<Rightarrow>
          (case required_height of
             None \<Rightarrow> []
           | Some rh \<Rightarrow>
               if float_less h rh then
                 [ascii ''Height '' @ format_f 3 h @ ascii '' m < required '' @ format_f 3 rh @
                  ascii '' m.'']
               else []))"

definition space_reasons ::
  "ustring option \<Rightarrow> pyfloat option \<Rightarrow> pyfloat option \<Rightarrow> ustring list" where
  "space_reasons space_type area height =
     (let (reasons, required_area, required_height) = type_reasons space_type
      in reasons @ area_reasons area required_area @ height_reasons height required_height)"

text \<open>
  The rest of the loop body, from the verdict to the appended row: the row and
  \<^verbatim>\<open>is_pass\<close>, which decides which counter is incremented.
\<close>

definition space_result ::
  "space \<Rightarrow> ustring option \<Rightarrow> pyfloat option \<Rightarrow> pyfloat option \<Rightarrow> result \<times> bool" where
  "space_result space space_type area height =
     (let name = (if truthy (Name space) then the (Name space)
                  else ascii ''IfcSpace #'' @ str_nat (express_id space));
          long_name = LongName space;
          (reasons0, required_area, required_height) = type_reasons space_type;
          reasons1 = space_reasons space_type area height;
          is_pass = (length reasons1 = 0);
          status = (if is_pass then ascii ''pass'' else ascii ''fail'');
          reasons = (if is_pass then [ascii ''Meets minimum area and height requirements.'']
                     else reasons1);
          structured_output =
            \<lparr>log_space = name, log_space_type = space_type,
             area_m2 = area, height_m = height,
             min_area_m2 = required_area, min_height_m = required_height,
             log_status = (if is_pass then ascii ''PASS'' else ascii ''FAIL''),
             log_reasons = reasons\<rparr>
      in (\<lparr>element_id = GlobalId space,
           element_type = ascii ''IfcSpace'',
           element_name = name,
           element_name_long = (if truthy long_name then long_name else None),
           check_status = status,
           actual_value =
             ascii ''space_type='' @
             (if truthy space_type then the space_type else ascii ''unknown'') @
             ascii '', area_m2='' @ format_decimal area @
             ascii '', height_m='' @ format_decimal height,
           required_value =
             ascii ''min_area_m2='' @ format_decimal required_area @
             ascii '', min_height_m='' @ format_decimal required_height,
           comment = Some (py_join (ascii ''; '') reasons),
           log_json = Some (SpaceLog structured_output)\<rparr>,
          is_pass))"

text \<open>
  The loop over the spaces, with the state it updates: the rows and the two counters.
  An exception raised by an extractor leaves the function.
\<close>

fun check_spaces ::
  "space list \<Rightarrow> result list \<Rightarrow> nat \<Rightarrow> nat \<Rightarrow> exn + (result list \<times> nat \<times> nat)" where
  "check_spaces [] results passed failed = Inr (results, passed, failed)"
| "check_spaces (space # rest) results passed failed =
     (case extract_area_m2 space of
        Inl e \<Rightarrow> Inl e
      | Inr area \<Rightarrow>
          (case extract_height_m space of
             Inl e \<Rightarrow> Inl e
           | Inr height \<Rightarrow>
               (let (row, is_pass) = space_result space (get_space_type space) area height
                in if is_pass then check_spaces rest (results @ [row]) (passed + 1) failed
                   else check_spaces rest (results @ [row]) passed (failed + 1))))"

definition summary_result :: "nat \<Rightarrow> nat \<Rightarrow> nat \<Rightarrow> result" where
  "summary_result total_input passed failed =
     (let total_checked = total_input;
          warnings = (0::nat);
          compliance_rate =
            (if total_checked > 0 then float_mul (int_truediv passed total_checked) (fl 100)
             else fl 0);
          summary =
            \<lparr>total_spaces_input = total_input,
             total_spaces_checked = total_checked,
             passed_count = passed,
             failed_count = failed,
             warnings_count = warnings,
             compliance_rate_percent = py_round compliance_rate 2\<rparr>
      in \<lparr>element_id = None,
          element_type = ascii ''Summary'',
          element_name = ascii ''Barcelona Space Compliance Summary'',
          element_name_long = None,
          check_status = (if failed = 0 then ascii ''pass'' else ascii ''fail''),
          actual_value =
            ascii ''checked='' @ str_nat total_checked @ ascii '', passed='' @ str_nat passed @
            ascii '', failed='' @ str_nat failed @ ascii '', warnings='' @ str_nat warnings @
            ascii '', rate='' @ format_f 2 compliance_rate @ ascii ''%'',
          required_value =
            ascii ''All checked spaces should meet minimum area and height by inferred space type'',
          comment =
            Some (if total_checked = 0 then ascii ''No IfcSpace elements found''
                  else ascii ''Computed from provided Barcelona rules''),
          log_json = Some (SummaryLog summary)\<rparr>)"

definition check_barcelona_space_compliance :: "model \<Rightarrow> exn + result list" where
  "check_barcelona_space_compliance model =
     (case check_spaces (spaces model) [] 0 0 of
        Inl e \<Rightarrow> Inl e
      | Inr (results, passed, failed) \<Rightarrow>
          Inr (results @ [summary_result (length (spaces model)) passed failed]))"

section \<open>Report renderer: the compliance section\<close>

text \<open>\<^verbatim>\<open>_to_text\<close> on an entry of a result row, which is a \<^verbatim>\<open>str\<close> or \<^verbatim>\<open>None\<close>.\<close>

definition to_text :: "ustring option \<Rightarrow> ustring" where
  "to_text v = (case v of None \<Rightarrow> [] | Some s \<Rightarrow> s)"

text \<open>
  \<^verbatim>\<open>text[:stop]\<close>: a negative \<^verbatim>\<open>stop\<close> counts from the end of the text, as Python
  slices do.
\<close>

definition py_slice_to :: "'a list \<Rightarrow> int \<Rightarrow> 'a list" where
  "py_slice_to xs stop =
     (if 0 \<le> stop then take (nat stop) xs else take (nat (int (length xs) + stop)) xs)"

text \<open>\<^verbatim>\<open>_clip\<close>, the same nested function in both section builders.\<close>

definition clip :: "ustring option \<Rightarrow> int \<Rightarrow> ustring" where
  "clip v width =
     (let text = to_text v
      in if int (length text) \<le> width then text
         else py_slice_to text (width - 3) @ ascii ''...'')"

text \<open>The format specifications \<^verbatim>\<open>:<w\<close> and \<^verbatim>\<open>:>w\<close>: padding with spaces, never cutting.\<close>

definition ljust :: "nat \<Rightarrow> ustring \<Rightarrow> ustring" where
  "ljust w s = s @ replicate (w - length s) 32"

definition rjust :: "nat \<Rightarrow> ustring \<Rightarrow> ustring" where
  "rjust w s = replicate (w - length s) 32 @ s"

definition status_key :: "result \<Rightarrow> ustring" where
  "status_key row =
     (let status = py_lower (to_text (Some (check_status row)))
      in if status = [] then ascii ''unknown'' else status)"

fun count_statuses :: "result list \<Rightarrow> (ustring \<rightharpoonup> nat) \<Rightarrow> (ustring \<rightharpoonup> nat)" where
  "count_statuses [] status_counts = status_counts"
| "count_statuses (row # rows) status_counts =
     count_statuses rows
       (status_counts(status_key row \<mapsto>
          (case status_counts (status_key row) of None \<Rightarrow> 0 | Some c \<Rightarrow> c) + 1))"

definition status_line :: "(ustring \<rightharpoonup> nat) \<Rightarrow> ustring \<Rightarrow> ustring list" where
  "status_line status_counts status =
     (case status_counts status of
        None \<Rightarrow> []
      | Some count \<Rightarrow> [ljust 12 (py_upper status) @ ascii '' '' @ rjust 8 (str_nat count)])"

text \<open>One line of the space-by-space table; the four clipped columns.\<close>

definition space_line :: "nat \<Rightarrow> result \<Rightarrow> ustring" where
  "space_line idx row =
     rjust 3 (str_nat idx) @ ascii '' '' @
     ljust 26 (clip (Some (element_name row)) 26) @ ascii '' '' @
     ljust 8 (clip (Some (py_upper (to_text (Some (check_status row))))) 8) @ ascii '' '' @
     ljust 34 (clip (Some (actual_value row)) 34) @ ascii '' '' @
     ljust 26 (clip (Some (required_value row)) 26)"

fun space_lines :: "nat \<Rightarrow> result list \<Rightarrow> ustring list" where
  "space_lines idx [] = []"
| "space_lines idx (row # rows) = space_line idx row # space_lines (idx + 1) rows"

definition detail_lines :: "result \<Rightarrow> ustring list" where
  "detail_lines row =
     (ascii ''- ['' @ py_upper (to_text (Some (check_status row))) @ ascii ''] '' @
      to_text (Some (element_name row))) #
     (if truthy (comment row) then [ascii ''  reasons: '' @ to_text (comment row)] else [])"

definition summary_lines :: "result \<Rightarrow> ustring list" where
  "summary_lines row =
     (ascii ''- '' @ to_text (Some (element_name row)) @ ascii '': '' @
      to_text (Some (actual_value row))) #
     (if truthy (comment row) then [ascii ''  comment: '' @ to_text (comment row)] else [])"

text \<open>
  \<^verbatim>\<open>_build_compliance_section\<close>. The rows are dicts shared with the caller, which the
  function could update in place; the model returns them next to the lines, as they
  are when the function returns. The function only reads them.
\<close>

definition build_compliance_section :: "result list \<Rightarrow> ustring list \<times> result list" where
  "build_compliance_section results =
     (let summary_rows = filter (\<lambda>row. element_type row = ascii ''Summary'') results;
          space_rows = filter (\<lambda>row. element_type row = ascii ''IfcSpace'') results;
          status_counts = count_statuses space_rows Map.empty;
          rule_line = replicate 100 45;
          failed_or_warn =
            filter (\<lambda>row. py_lower (to_text (Some (check_status row)))
                          \<in> set (map ascii [''fail'', ''warning'', ''blocked''])) space_rows;
          lines =
            [ascii ''B) BARCELONA SPACE COMPLIANCE'', rule_line,
             ascii ''Total space checks: '' @ str_nat (length space_rows), [],
             ascii ''1) COMPLIANCE STATUS COUNTS'', rule_line,
             ljust 12 (ascii ''Status'') @ ascii '' '' @ rjust 8 (ascii ''Count''), rule_line] @
            concat (map (status_line status_counts)
              (map ascii [''pass'', ''fail'', ''warning'', ''blocked'', ''log'', ''unknown''])) @
            [[], ascii ''2) SPACE-BY-SPACE RESULTS'', rule_line,
             rjust 3 (ascii ''#'') @ ascii '' '' @ ljust 26 (ascii ''Space'') @ ascii '' '' @
             ljust 8 (ascii ''Status'') @ ascii '' '' @ ljust 34 (ascii ''Measured'') @
             ascii '' '' @ ljust 26 (ascii ''Required''),
             rule_line] @
            (if space_rows \<noteq> [] then space_lines 1 space_rows
             else [ascii ''No IfcSpace rows found.'']) @
            [[], ascii ''3) NON-COMPLIANT DETAILS'', rule_line] @
            (if failed_or_warn \<noteq> [] then concat (map detail_lines failed_or_warn)
             else [ascii ''All checked spaces are compliant.'']) @
            [[], ascii ''4) COMPLIANCE SUMMARY ROWS'', rule_line] @
            (if summary_rows \<noteq> [] then concat (map summary_lines summary_rows)
             else [ascii ''No summary rows produced.'']) @
            [[]]
      in (lines, results))"

section \<open>Auxiliary notions for the statements\<close>

text \<open>
  What \<open>norm_text\<close> makes of one code point of the stripped text: lower-cased,
  decomposed, combining marks removed.
\<close>

definition fold_cp :: "nat \<Rightarrow> ustring" where
  "fold_cp c = filter (\<lambda>ch. \<not> combining ch) (nfkd_cp (lower_cp c))"

text \<open>
  Latin-1 text without the four spacing accents (diaeresis U+00A8, macron U+00AF, acute
  U+00B4, cedilla U+00B8), whose decomposition starts with a space.
\<close>

definition plain_latin1 :: "nat \<Rightarrow> bool" where
  "plain_latin1 c \<longleftrightarrow> c < 256 \<and> c \<noteq> 168 \<and> c \<noteq> 175 \<and> c \<noteq> 180 \<and> c \<noteq> 184"

definition stable_cp :: "nat \<Rightarrow> bool" where
  "stable_cp x \<longleftrightarrow> (x < 160 \<and> \<not> (65 \<le> x \<and> x \<le> 90)) \<or> 879 < x"

definition entry_ok :: "nat \<times> ustring \<Rightarrow> bool" where
  "entry_ok e \<longleftrightarrow>
     (let k = fst e; d = filter (\<lambda>ch. \<not> combining ch) (snd e) in
      k = 168 \<or> k = 175 \<or> k = 180 \<or> k = 184 \<or> (192 \<le> k \<and> k \<le> 222) \<or> 832 \<le> k \<or>
      (d \<noteq> [] \<and> (k \<noteq> 160 \<longrightarrow> list_all (\<lambda>x. \<not> py_isspace x) d) \<and> list_all stable_cp d))"

text \<open>The keyword list of a space type.\<close>

definition keywords_of :: "ustring \<Rightarrow> ustring list" where
  "keywords_of space_type =
     (case map_of SPACE_KEYWORDS space_type of None \<Rightarrow> [] | Some keywords \<Rightarrow> keywords)"

text \<open>
  The quantities of all quantity sets of a space and the properties of all its property
  sets, in traversal order.
\<close>

fun quantities_in :: "property_definition \<Rightarrow> quantity list" where
  "quantities_in (IfcElementQuantity qs) = qs"
| "quantities_in prop_def = []"

fun properties_in :: "property_definition \<Rightarrow> property list" where
  "properties_in (IfcPropertySet props) = props"
| "properties_in prop_def = []"

definition quantities_of :: "space \<Rightarrow> quantity list" where
  "quantities_of space = concat (map quantities_in (iter_property_defs space))"

definition properties_of :: "space \<Rightarrow> property list" where
  "properties_of space = concat (map properties_in (iter_property_defs space))"

text \<open>
  A quantity of the wanted kind under a canonical name, and its value; a property
  whose name contains the keyword and whose nominal value does not coerce to absent.
\<close>

definition named_quantity :: "measure \<Rightarrow> quantity \<Rightarrow> bool" where
  "named_quantity m q =
     (case quantity_of m q of
        None \<Rightarrow> False
      | Some (qname, v) \<Rightarrow> norm_text qname \<in> set (qto_names m))"

definition quantity_value :: "measure \<Rightarrow> quantity \<Rightarrow> ifc_value" where
  "quantity_value m q = (case quantity_of m q of None \<Rightarrow> Unset | Some (qname, v) \<Rightarrow> v)"

definition coercible_property :: "measure \<Rightarrow> property \<Rightarrow> bool" where
  "coercible_property m prop \<longleftrightarrow>
     py_in (pset_keyword m) (norm_text (p_Name prop)) \<and>
     to_float (py_of_value (NominalValue prop)) \<noteq> Inr None"

text \<open>
  What the two extractors return for a space (absent if one raised, which
  \<open>extract_measure_total\<close> excludes), and the row the loop body appends for it.
\<close>

definition measured :: "measure \<Rightarrow> space \<Rightarrow> pyfloat option" where
  "measured m space = (case extract_measure m space of Inr x \<Rightarrow> x | Inl e \<Rightarrow> None)"

definition reasons_of :: "space \<Rightarrow> ustring list" where
  "reasons_of space =
     space_reasons (get_space_type space) (measured AreaMeasure space)
       (measured HeightMeasure space)"

definition row_of :: "space \<Rightarrow> result" where
  "row_of space =
     fst (space_result space (get_space_type space) (measured AreaMeasure space)
            (measured HeightMeasure space))"

definition passes :: "space \<Rightarrow> bool" where
  "passes space \<longleftrightarrow> reasons_of space = []"

section \<open>Example inputs\<close>

text \<open>Concrete spaces and values at which the theorems below are evaluated.\<close>

definition names_living_bed_bath :: space_names where
  "names_living_bed_bath =
     \<lparr>Name = Some (ascii ''Living''), LongName = Some (ascii ''Bedroom with bath''),
      ObjectType = None\<rparr>"

definition names_bed_bath :: space_names where
  "names_bed_bath =
     \<lparr>Name = Some (ascii ''Master Bedroom''), LongName = Some (ascii ''with bath''),
      ObjectType = None\<rparr>"


text \<open>
  A space with the given property definitions, each linked by its own
  \<^verbatim>\<open>IfcRelDefinesByProperties\<close>.
\<close>

definition space_with :: "property_definition list \<Rightarrow> space" where
  "space_with prop_defs =
     \<lparr>Name = None, LongName = None, ObjectType = None, GlobalId = None, express_id = 1,
      IsDefinedBy = map (\<lambda>prop_def. IfcRelDefinesByProperties (Some prop_def)) prop_defs\<rparr>"

definition net_floor_area_qto :: property_definition where
  "net_floor_area_qto =
     IfcElementQuantity
       [IfcQuantityArea (Some (ascii ''NetFloorArea'')) (Plain (IfcReal (Finite (37 / 2))))]"

definition gross_area_pset :: property_definition where
  "gross_area_pset =
     IfcPropertySet
       [\<lparr>p_Name = Some (ascii ''Area (gross)''),
         NominalValue = Instance (Some (IfcReal (Finite 99)))\<rparr>]"

definition clear_height_qto :: property_definition where
  "clear_height_qto =
     IfcElementQuantity
       [IfcQuantityLength (Some (ascii ''ClearHeight'')) (Plain (IfcReal (Finite (5 / 2))))]"

definition height_pset :: property_definition where
  "height_pset =
     IfcPropertySet
       [\<lparr>p_Name = Some (ascii ''Ceiling height''),
         NominalValue = Instance (Some (IfcReal (Finite 3)))\<rparr>]"

text \<open>
  Quantity sets whose first canonically named quantity has no usable value: unset, or a
  text that is not a number. A second canonical quantity follows.
\<close>

definition unset_area_qto :: property_definition where
  "unset_area_qto =
     IfcElementQuantity
       [IfcQuantityArea (Some (ascii ''NetFloorArea'')) Unset,
        IfcQuantityArea (Some (ascii ''GrossFloorArea'')) (Plain (IfcReal (Finite 20)))]"

definition text_area_qto :: property_definition where
  "text_area_qto =
     IfcElementQuantity
       [IfcQuantityArea (Some (ascii ''NetFloorArea'')) (Plain (IfcText None)),
        IfcQuantityArea (Some (ascii ''GrossFloorArea'')) (Plain (IfcReal (Finite 20)))]"

definition unset_height_qto :: property_definition where
  "unset_height_qto =
     IfcElementQuantity
       [IfcQuantityLength (Some (ascii ''Height'')) Unset,
        IfcQuantityLength (Some (ascii ''ClearHeight'')) (Plain (IfcReal (Finite (5 / 2))))]"

text \<open>A property set whose first area property holds a text that is not a number.\<close>

definition malformed_area_pset :: property_definition where
  "malformed_area_pset =
     IfcPropertySet
       [\<lparr>p_Name = Some (ascii ''Area''), NominalValue = Instance (Some (IfcText None))\<rparr>,
        \<lparr>p_Name = Some (ascii ''Area (gross)''),
         NominalValue = Instance (Some (IfcReal (Finite 99)))\<rparr>]"

text \<open>
  A bathroom of 3.0 m2 and 2.5 m, a bedroom of 18.5 m2 and 3.0 m, and the model that
  holds the two.
\<close>

definition bathroom_space :: space where
  "bathroom_space =
     \<lparr>Name = Some (ascii ''Bany''), LongName = None, ObjectType = None,
      GlobalId = Some (ascii ''0001''), express_id = 7,
      IsDefinedBy =
        [IfcRelDefinesByProperties (Some (IfcElementQuantity
           [IfcQuantityArea (Some (ascii ''NetFloorArea'')) (Plain (IfcReal (Finite 3))),
            IfcQuantityLength (Some (ascii ''Height'')) (Plain (IfcReal (Finite (5 / 2))))]))]\<rparr>"

definition bedroom_space :: space where
  "bedroom_space =
     \<lparr>Name = Some (ascii ''Bedroom''), LongName = None, ObjectType = None,
      GlobalId = Some (ascii ''0002''), express_id = 8,
      IsDefinedBy =
        [IfcRelDefinesByProperties (Some (IfcElementQuantity
           [IfcQuantityArea (Some (ascii ''NetFloorArea'')) (Plain (IfcReal (Finite (37 / 2)))),
            IfcQuantityLength (Some (ascii ''Height'')) (Plain (IfcReal (Finite 3)))]))]\<rparr>"

definition two_space_model :: model where
  "two_space_model = \<lparr>spaces = [bathroom_space, bedroom_space]\<rparr>"

definition empty_model :: model where
  "empty_model = \<lparr>spaces = []\<rparr>"

section \<open>Properties of the text functions\<close>

lemma ascii_eq_iff: "ascii s = ascii t \<longleftrightarrow> s = t"
  unfolding ascii_def by (rule inj_map_eq_map) (simp add: inj_def)

lemma startswith_iff: "startswith xs ys \<longleftrightarrow> (\<exists>ss. ys = xs @ ss)"
  by (induction xs ys rule: startswith.induct) auto

lemma py_in_iff: "py_in xs ys \<longleftrightarrow> (\<exists>ps ss. ys = ps @ xs @ ss)"
proof (induction ys)
  case Nil
  then show ?case by auto
next
  case (Cons y ys)
  show ?case
  proof
    assume "py_in xs (y # ys)"
    then consider "startswith xs (y # ys)" | "py_in xs ys" by auto
    then show "\<exists>ps ss. y # ys = ps @ xs @ ss"
    proof cases
      case 1
      then obtain ss where "y # ys = xs @ ss" by (auto simp: startswith_iff)
      then have "y # ys = [] @ xs @ ss" by simp
      then show ?thesis by blast
    next
      case 2
      then obtain ps ss where "ys = ps @ xs @ ss" using Cons.IH by blast
      then have "y # ys = (y # ps) @ xs @ ss" by simp
      then show ?thesis by blast
    qed
  next
    assume "\<exists>ps ss. y # ys = ps @ xs @ ss"
    then obtain ps ss where eq: "y # ys = ps @ xs @ ss" by blast
    show "py_in xs (y # ys)"
    proof (cases ps)
      case Nil
      then have "startswith xs (y # ys)" using eq by (auto simp: startswith_iff)
      then show ?thesis by simp
    next
      case (Cons p ps')
      then have "ys = ps' @ xs @ ss" using eq by simp
      then have "py_in xs ys" using Cons.IH by blast
      then show ?thesis by simp
    qed
  qed
qed

lemma startswith_map: "inj f \<Longrightarrow> startswith (map f xs) (map f ys) = startswith xs ys"
  by (induction xs ys rule: startswith.induct) (auto simp: inj_eq)

lemma py_in_map: "inj f \<Longrightarrow> py_in (map f xs) (map f ys) = py_in xs ys"
proof (induction ys)
  case Nil
  then show ?case by simp
next
  case (Cons a ys)
  have "py_in (map f xs) (map f (a # ys)) =
      (startswith (map f xs) (map f (a # ys)) \<or> py_in (map f xs) (map f ys))"
    by simp
  also have "\<dots> = (startswith xs (a # ys) \<or> py_in xs ys)"
    by (simp only: startswith_map [OF Cons.prems] Cons.IH [OF Cons.prems])
  finally show ?case by simp
qed

lemma py_in_ascii: "py_in (ascii s) (ascii t) = py_in s t"
  unfolding ascii_def by (rule py_in_map) (simp add: inj_def)

section \<open>Properties of the text normalizer\<close>

lemma nfkd_cp_small: "c < 160 \<Longrightarrow> nfkd_cp c = [c]"
  by (simp add: nfkd_cp_def nfkd_table_def)

lemma nfkd_cp_big: "836 < c \<Longrightarrow> nfkd_cp c = [c]"
  by (simp add: nfkd_cp_def nfkd_table_def)

lemma fold_cp_small: "c < 160 \<Longrightarrow> \<not> (65 \<le> c \<and> c \<le> 90) \<Longrightarrow> fold_cp c = [c]"
  by (simp add: fold_cp_def lower_cp_def nfkd_cp_small combining_def)

lemma fold_cp_big: "879 < c \<Longrightarrow> fold_cp c = [c]"
  by (simp add: fold_cp_def lower_cp_def nfkd_cp_big combining_def)

lemma nfkd_table_ok: "list_all entry_ok nfkd_table"
  by (simp add: nfkd_table_def entry_ok_def combining_def py_isspace_def stable_cp_def)

lemma fold_cp_stable: "stable_cp x \<Longrightarrow> fold_cp x = [x]"
  unfolding stable_cp_def using fold_cp_small fold_cp_big by blast

lemma lower_cp_facts:
  assumes "plain_latin1 c"
  shows "lower_cp c < 256" "lower_cp (lower_cp c) = lower_cp c"
        "\<not> (192 \<le> lower_cp c \<and> lower_cp c \<le> 222 \<and> lower_cp c \<noteq> 215)"
        "\<not> (65 \<le> lower_cp c \<and> lower_cp c \<le> 90)"
        "lower_cp c \<noteq> 168" "lower_cp c \<noteq> 175" "lower_cp c \<noteq> 180" "lower_cp c \<noteq> 184"
        "py_isspace (lower_cp c) = py_isspace c" "lower_cp c = 160 \<longleftrightarrow> c = 160"
  using assms by (auto simp: plain_latin1_def lower_cp_def py_isspace_def)

lemma fold_cp_plain:
  assumes "plain_latin1 c"
  shows "fold_cp c \<noteq> []"
    and "\<not> py_isspace c \<Longrightarrow> \<forall>d\<in>set (fold_cp c). \<not> py_isspace d"
    and "\<forall>d\<in>set (fold_cp c). fold_cp d = [d]"
proof -
  define k where "k = lower_cp c"
  note lf = lower_cp_facts[OF assms, folded k_def]
  have all: "fold_cp c \<noteq> [] \<and> (\<not> py_isspace c \<longrightarrow> (\<forall>d\<in>set (fold_cp c). \<not> py_isspace d)) \<and>
      (\<forall>d\<in>set (fold_cp c). fold_cp d = [d])"
  proof (cases "map_of nfkd_table k")
    case None
    then have n: "nfkd_cp k = [k]" by (simp add: nfkd_cp_def)
    have nc: "\<not> combining k" using lf(1) by (simp add: combining_def)
    have fc: "fold_cp c = [k]" using n nc by (simp add: fold_cp_def k_def)
    have "fold_cp k = [k]" using n nc lf(2) by (simp add: fold_cp_def)
    then show ?thesis using fc lf(9) by simp
  next
    case (Some d)
    then have "(k, d) \<in> set nfkd_table" by (rule map_of_SomeD)
    then have "entry_ok (k, d)" using nfkd_table_ok unfolding list_all_iff by blast
    moreover have "k \<noteq> 215" using Some by (auto simp: nfkd_table_def)
    ultimately have ok: "filter (\<lambda>ch. \<not> combining ch) d \<noteq> [] \<and>
        (k \<noteq> 160 \<longrightarrow> list_all (\<lambda>x. \<not> py_isspace x) (filter (\<lambda>ch. \<not> combining ch) d)) \<and>
        list_all stable_cp (filter (\<lambda>ch. \<not> combining ch) d)"
      using lf(1,3,5,6,7,8) by (auto simp: entry_ok_def Let_def)
    have fc: "fold_cp c = filter (\<lambda>ch. \<not> combining ch) d"
      using Some by (simp add: fold_cp_def k_def nfkd_cp_def)
    have "\<not> py_isspace c \<Longrightarrow> k \<noteq> 160" using lf(10) by (auto simp: py_isspace_def)
    then show ?thesis using ok fold_cp_stable unfolding fc list_all_iff by blast
  qed
  show "fold_cp c \<noteq> []" using all by blast
  show "\<not> py_isspace c \<Longrightarrow> \<forall>d\<in>set (fold_cp c). \<not> py_isspace d" using all by blast
  show "\<forall>d\<in>set (fold_cp c). fold_cp d = [d]" using all by blast
qed


lemma norm_text_concat: "norm_text (Some s) = concat (map fold_cp (py_strip s))"
  by (simp add: norm_text_def nfkd_def py_lower_def filter_concat comp_def fold_cp_def [abs_def])

lemma last_dropWhile_ne: "dropWhile P xs \<noteq> [] \<Longrightarrow> last (dropWhile P xs) = last xs"
  by (induction xs) (auto split: if_splits)

lemma py_strip_subset: "set (py_strip s) \<subseteq> set s"
proof
  fix x assume "x \<in> set (py_strip s)"
  then have "x \<in> set (dropWhile py_isspace (rev (dropWhile py_isspace s)))"
    by (simp add: py_strip_def)
  then have "x \<in> set (rev (dropWhile py_isspace s))" by (rule set_dropWhileD)
  then have "x \<in> set (dropWhile py_isspace s)" by simp
  then show "x \<in> set s" by (rule set_dropWhileD)
qed

lemma py_strip_edges:
  "py_strip s = [] \<or> (\<not> py_isspace (hd (py_strip s)) \<and> \<not> py_isspace (last (py_strip s)))"
proof (cases "py_strip s = []")
  case True
  then show ?thesis by simp
next
  case False
  define a where "a = dropWhile py_isspace s"
  define b where "b = dropWhile py_isspace (rev a)"
  have ps: "py_strip s = rev b" by (simp add: py_strip_def a_def b_def)
  with False have bne: "b \<noteq> []" by simp
  then have ane: "a \<noteq> []" by (auto simp: b_def)
  have "\<not> py_isspace (hd b)" using bne unfolding b_def by (rule hd_dropWhile)
  then have l: "\<not> py_isspace (last (py_strip s))" using bne by (simp add: ps last_rev)
  have "last b = last (rev a)" using bne unfolding b_def by (rule last_dropWhile_ne)
  also have "\<dots> = hd a" using ane by (simp add: last_rev)
  finally have "hd (py_strip s) = hd a" using bne by (simp add: ps hd_rev)
  moreover have "\<not> py_isspace (hd a)" using ane unfolding a_def by (rule hd_dropWhile)
  ultimately show ?thesis using l by simp
qed

lemma dropWhile_hd_id: "xs = [] \<or> \<not> P (hd xs) \<Longrightarrow> dropWhile P xs = xs"
  by (cases xs) auto

lemma py_strip_fixed:
  assumes "z = [] \<or> (\<not> py_isspace (hd z) \<and> \<not> py_isspace (last z))"
  shows "py_strip z = z"
proof -
  have 1: "dropWhile py_isspace z = z" using assms by (intro dropWhile_hd_id) auto
  have "rev z = [] \<or> \<not> py_isspace (hd (rev z))" using assms by (auto simp: hd_rev)
  then have 2: "dropWhile py_isspace (rev z) = rev z" by (rule dropWhile_hd_id)
  show ?thesis by (simp add: py_strip_def 1 2)
qed

lemma hd_concat_map: "t \<noteq> [] \<Longrightarrow> f (hd t) \<noteq> [] \<Longrightarrow> hd (concat (map f t)) = hd (f (hd t))"
  by (cases t) auto

lemma last_concat_map: "t \<noteq> [] \<Longrightarrow> f (last t) \<noteq> [] \<Longrightarrow> last (concat (map f t)) = last (f (last t))"
  by (induction t) (auto simp: last_append)

lemma concat_map_single: "\<forall>d\<in>set z. f d = [d] \<Longrightarrow> concat (map f z) = z"
  by (induction z) auto

lemma norm_text_fixed:
  assumes "\<forall>d\<in>set z. fold_cp d = [d]"
    and "z = [] \<or> (\<not> py_isspace (hd z) \<and> \<not> py_isspace (last z))"
  shows "norm_text (Some z) = z"
  using assms by (simp add: norm_text_concat py_strip_fixed concat_map_single)

lemma norm_text_idem_plain:
  assumes "list_all plain_latin1 s"
  shows "norm_text (Some (norm_text (Some s))) = norm_text (Some s)"
proof -
  define t where "t = py_strip s"
  define z where "z = concat (map fold_cp t)"
  have nz: "norm_text (Some s) = z" by (simp add: norm_text_concat t_def z_def)
  have plain: "\<And>c. c \<in> set t \<Longrightarrow> plain_latin1 c"
    using assms py_strip_subset[of s] unfolding t_def list_all_iff by blast
  have fixed: "\<forall>d\<in>set z. fold_cp d = [d]"
    using fold_cp_plain(3)[OF plain] unfolding z_def by auto
  have edges: "z = [] \<or> (\<not> py_isspace (hd z) \<and> \<not> py_isspace (last z))"
  proof (cases "t = []")
    case True
    then show ?thesis by (simp add: z_def)
  next
    case False
    then have e: "\<not> py_isspace (hd t)" "\<not> py_isspace (last t)"
      using py_strip_edges[of s] unfolding t_def by auto
    have ht: "plain_latin1 (hd t)" and lt: "plain_latin1 (last t)" using False plain by auto
    have "hd z = hd (fold_cp (hd t))"
      unfolding z_def using False fold_cp_plain(1)[OF ht] by (rule hd_concat_map)
    moreover have "hd (fold_cp (hd t)) \<in> set (fold_cp (hd t))"
      using fold_cp_plain(1)[OF ht] by simp
    ultimately have 1: "\<not> py_isspace (hd z)" using fold_cp_plain(2)[OF ht e(1)] by simp
    have "last z = last (fold_cp (last t))"
      unfolding z_def using False fold_cp_plain(1)[OF lt] by (rule last_concat_map)
    moreover have "last (fold_cp (last t)) \<in> set (fold_cp (last t))"
      using fold_cp_plain(1)[OF lt] by simp
    ultimately have 2: "\<not> py_isspace (last z)" using fold_cp_plain(2)[OF lt e(2)] by simp
    show ?thesis using 1 2 by simp
  qed
  show ?thesis unfolding nz using fixed edges by (rule norm_text_fixed)
qed


lemmas text_defs = norm_text_def ascii_def py_strip_def py_lower_def nfkd_def nfkd_cp_def
  nfkd_table_def lower_cp_def combining_def py_isspace_def

text \<open>For evaluating the normalizer on ASCII text, without the decomposition table.\<close>

lemmas ascii_text_defs = norm_text_def ascii_def py_strip_def py_lower_def nfkd_def
  nfkd_cp_small lower_cp_def combining_def py_isspace_def

lemma norm_text_cafe: "norm_text (Some (ascii ''Caf'' @ [233])) = ascii ''cafe''"
  by (simp add: text_defs)

lemma norm_text_cafe_plain: "norm_text (Some (ascii ''cafe'')) = ascii ''cafe''"
  by (simp add: ascii_text_defs)

lemma norm_text_bany_acute: "norm_text (Some (ascii ''bany'' @ [180])) = ascii ''bany ''"
  by (simp add: text_defs)

lemma norm_text_bany_space: "norm_text (Some (ascii ''bany '')) = ascii ''bany''"
  by (simp add: ascii_text_defs)

text \<open>
  The parts of claim C6 that hold: \<^verbatim>\<open>None\<close> normalizes to the empty text, and so does
  the empty text; \<^verbatim>\<open>normalize("Caf\u00e9")\<close> equals \<^verbatim>\<open>normalize("cafe")\<close>. The result is a
  text for every input: the function is total on its input type. (Lemma
  \<open>norm_text_idem_plain\<close> above gives a set of texts on which normalizing twice is the
  same as normalizing once.)
\<close>

lemma norm_text_basics:
  "norm_text None = []"
  "norm_text (Some (norm_text None)) = norm_text None"
  "norm_text (Some (ascii ''Caf'' @ [233])) = norm_text (Some (ascii ''cafe''))"
proof -
  show 1: "norm_text None = []" by (simp add: norm_text_def)
  have 2: "norm_text (Some []) = []"
    by (simp add: norm_text_def py_strip_def py_lower_def nfkd_def)
  show "norm_text (Some (norm_text None)) = norm_text None" using 1 2 by simp
  show "norm_text (Some (ascii ''Caf'' @ [233])) = norm_text (Some (ascii ''cafe''))"
    using norm_text_cafe norm_text_cafe_plain by simp
qed

text \<open>
  Claim C6 fails on the code: the normalizer is not idempotent. \<^verbatim>\<open>_norm_text\<close> strips
  white space first (line 37) and decomposes afterwards (line 38). The acute accent
  U+00B4 is not white space, so it survives the strip at the end of \<^verbatim>\<open>"bany\u00b4"\<close>;
  its decomposition is a space followed by the combining mark U+0301; the mark is
  deleted and the space stays. The result \<^verbatim>\<open>"bany "\<close> has a trailing space, which a
  second normalization strips.
\<close>

theorem norm_text_not_idempotent:
  "norm_text (Some (ascii ''bany'' @ [180])) = ascii ''bany '' \<and>
   norm_text (Some (norm_text (Some (ascii ''bany'' @ [180])))) = ascii ''bany'' \<and>
   norm_text (Some (norm_text (Some (ascii ''bany'' @ [180])))) \<noteq>
     norm_text (Some (ascii ''bany'' @ [180]))"
proof -
  have "ascii ''bany'' \<noteq> ascii ''bany ''" by (simp add: ascii_eq_iff)
  then show ?thesis by (simp add: norm_text_bany_acute norm_text_bany_space)
qed

section \<open>Properties of the space classifier\<close>

lemma keyword_hit_iff: "keyword_hit kws h \<longleftrightarrow> (\<exists>k\<in>set kws. py_in k h)"
  by (induction kws) auto

lemma scan_space_types_find:
  "scan_space_types tbl h = map_option fst (find (\<lambda>(t, kws). keyword_hit kws h) tbl)"
  by (induction tbl) auto

lemma scan_space_types_None:
  "scan_space_types tbl h = None \<longleftrightarrow> (\<forall>(t, kws)\<in>set tbl. \<not> keyword_hit kws h)"
  by (induction tbl) (auto split: if_splits)

lemma scan_space_types_Some:
  "scan_space_types tbl h = Some t \<Longrightarrow> t \<in> set (map fst tbl)"
  by (induction tbl) (auto split: if_splits)

lemma space_types_order:
  "map fst SPACE_KEYWORDS =
     map ascii [''Living Room'', ''Bedroom'', ''Kitchen'', ''Bathroom'', ''Corridor'']"
  by (simp add: SPACE_KEYWORDS_def)

lemma keywords_of_simps:
  "keywords_of (ascii ''Living Room'') =
     map ascii [''living'', ''lounge'', ''sala'', ''salon'', ''estar'', ''menjador'']"
  "keywords_of (ascii ''Bedroom'') =
     map ascii [''bedroom'', ''bed'', ''dorm'', ''habitacio'', ''habitacio'', ''dormitori'']"
  "keywords_of (ascii ''Kitchen'') = map ascii [''kitchen'', ''cuina'', ''cocina'']"
  "keywords_of (ascii ''Bathroom'') =
     map ascii [''bath'', ''bathroom'', ''toilet'', ''wc'', ''lavabo'', ''aseo'', ''bany'']"
  "keywords_of (ascii ''Corridor'') =
     map ascii [''corridor'', ''hall'', ''pasillo'', ''passage'', ''rebedor'', ''distrib'']"
  by (simp_all add: keywords_of_def SPACE_KEYWORDS_def ascii_eq_iff)

lemma get_space_type_cascade:
  "get_space_type space =
     (if keyword_hit (keywords_of (ascii ''Living Room'')) (haystack space)
        then Some (ascii ''Living Room'')
      else if keyword_hit (keywords_of (ascii ''Bedroom'')) (haystack space)
        then Some (ascii ''Bedroom'')
      else if keyword_hit (keywords_of (ascii ''Kitchen'')) (haystack space)
        then Some (ascii ''Kitchen'')
      else if keyword_hit (keywords_of (ascii ''Bathroom'')) (haystack space)
        then Some (ascii ''Bathroom'')
      else if keyword_hit (keywords_of (ascii ''Corridor'')) (haystack space)
        then Some (ascii ''Corridor'')
      else None)"
  unfolding keywords_of_simps by (simp add: get_space_type_def SPACE_KEYWORDS_def)

lemma haystack_append:
  "haystack space =
     norm_text (Name space) @ ascii '' '' @ norm_text (LongName space) @ ascii '' '' @
     norm_text (ObjectType space)"
  by (simp add: haystack_def)

text \<open>
  Claim C4, as amended. The classifier returns the first space type, in the order Living
  Room, Bedroom, Kitchen, Bathroom, Corridor, one of whose keywords is a substring of
  the haystack (the three normalized fields joined by single spaces), and \<open>None\<close>
  when no keyword of any type occurs; the result is one label or \<open>None\<close>. A haystack
  with a Bedroom keyword and a Bathroom keyword classifies as Bedroom when it has no
  Living Room keyword; with a Living Room keyword it classifies as Living Room.
\<close>

theorem get_space_type_first_match:
  "get_space_type space =
     map_option fst
       (find (\<lambda>(space_type, keywords). keyword_hit keywords (haystack space)) SPACE_KEYWORDS) \<and>
   (\<forall>keywords h. keyword_hit keywords h \<longleftrightarrow> (\<exists>k\<in>set keywords. \<exists>ps ss. h = ps @ k @ ss)) \<and>
   map fst SPACE_KEYWORDS =
     map ascii [''Living Room'', ''Bedroom'', ''Kitchen'', ''Bathroom'', ''Corridor''] \<and>
   haystack space =
     norm_text (Name space) @ ascii '' '' @ norm_text (LongName space) @ ascii '' '' @
     norm_text (ObjectType space) \<and>
   (get_space_type space = None \<longleftrightarrow>
      (\<forall>(space_type, keywords)\<in>set SPACE_KEYWORDS. \<not> keyword_hit keywords (haystack space))) \<and>
   (get_space_type space = None \<or>
      (\<exists>space_type\<in>set (map fst SPACE_KEYWORDS). get_space_type space = Some space_type)) \<and>
   (keyword_hit (keywords_of (ascii ''Bedroom'')) (haystack space) \<and>
    keyword_hit (keywords_of (ascii ''Bathroom'')) (haystack space) \<and>
    \<not> keyword_hit (keywords_of (ascii ''Living Room'')) (haystack space) \<longrightarrow>
      get_space_type space = Some (ascii ''Bedroom'')) \<and>
   (keyword_hit (keywords_of (ascii ''Living Room'')) (haystack space) \<longrightarrow>
      get_space_type space = Some (ascii ''Living Room''))"
proof -
  have 1: "get_space_type space =
     map_option fst
       (find (\<lambda>(space_type, keywords). keyword_hit keywords (haystack space)) SPACE_KEYWORDS)"
    by (simp add: get_space_type_def scan_space_types_find)
  have 2: "\<forall>keywords h. keyword_hit keywords h \<longleftrightarrow> (\<exists>k\<in>set keywords. \<exists>ps ss. h = ps @ k @ ss)"
    by (simp add: keyword_hit_iff py_in_iff)
  have 5: "get_space_type space = None \<longleftrightarrow>
      (\<forall>(space_type, keywords)\<in>set SPACE_KEYWORDS. \<not> keyword_hit keywords (haystack space))"
    unfolding get_space_type_def by (rule scan_space_types_None)
  have 6: "get_space_type space = None \<or>
      (\<exists>space_type\<in>set (map fst SPACE_KEYWORDS). get_space_type space = Some space_type)"
    unfolding get_space_type_def using scan_space_types_Some by (cases "scan_space_types SPACE_KEYWORDS (haystack space)") blast+
  have 7: "keyword_hit (keywords_of (ascii ''Bedroom'')) (haystack space) \<and>
    keyword_hit (keywords_of (ascii ''Bathroom'')) (haystack space) \<and>
    \<not> keyword_hit (keywords_of (ascii ''Living Room'')) (haystack space) \<longrightarrow>
      get_space_type space = Some (ascii ''Bedroom'')"
    by (simp add: get_space_type_cascade)
  have 8: "keyword_hit (keywords_of (ascii ''Living Room'')) (haystack space) \<longrightarrow>
      get_space_type space = Some (ascii ''Living Room'')"
    by (simp add: get_space_type_cascade)
  show ?thesis using 1 2 space_types_order haystack_append 5 6 7 8 by blast
qed

lemma haystack_living_bed_bath:
  "haystack names_living_bed_bath = ascii ''living bedroom with bath ''"
  by (simp add: haystack_def names_living_bed_bath_def ascii_text_defs)

lemma haystack_bed_bath:
  "haystack names_bed_bath = ascii ''master bedroom with bath ''"
  by (simp add: haystack_def names_bed_bath_def ascii_text_defs)

text \<open>The theorem at the fields \<^verbatim>\<open>Master Bedroom\<close> and \<^verbatim>\<open>with bath\<close>.\<close>

theorem get_space_type_first_match_witness:
  "keyword_hit (keywords_of (ascii ''Bedroom'')) (haystack names_bed_bath) \<and>
   keyword_hit (keywords_of (ascii ''Bathroom'')) (haystack names_bed_bath) \<and>
   \<not> keyword_hit (keywords_of (ascii ''Living Room'')) (haystack names_bed_bath) \<and>
   get_space_type names_bed_bath = Some (ascii ''Bedroom'')"
proof -
  have 1: "keyword_hit (keywords_of (ascii ''Bedroom'')) (haystack names_bed_bath)"
    unfolding haystack_bed_bath keywords_of_simps by (simp add: py_in_ascii)
  have 2: "keyword_hit (keywords_of (ascii ''Bathroom'')) (haystack names_bed_bath)"
    unfolding haystack_bed_bath keywords_of_simps by (simp add: py_in_ascii)
  have 3: "\<not> keyword_hit (keywords_of (ascii ''Living Room'')) (haystack names_bed_bath)"
    unfolding haystack_bed_bath keywords_of_simps by (simp add: py_in_ascii)
  show ?thesis using 1 2 3 get_space_type_first_match [of names_bed_bath] by blast
qed

text \<open>
  Claim C4 as stated fails: the fields \<^verbatim>\<open>Living\<close> and \<^verbatim>\<open>Bedroom with bath\<close> give a
  haystack that contains the Bedroom keyword \<^verbatim>\<open>bed\<close> and the Bathroom keyword \<^verbatim>\<open>bath\<close>,
  and the space classifies as Living Room.
\<close>

theorem bed_and_bath_not_always_bedroom:
  "ascii ''bed'' \<in> set (keywords_of (ascii ''Bedroom'')) \<and>
   py_in (ascii ''bed'') (haystack names_living_bed_bath) \<and>
   ascii ''bath'' \<in> set (keywords_of (ascii ''Bathroom'')) \<and>
   py_in (ascii ''bath'') (haystack names_living_bed_bath) \<and>
   get_space_type names_living_bed_bath = Some (ascii ''Living Room'') \<and>
   get_space_type names_living_bed_bath \<noteq> Some (ascii ''Bedroom'')"
proof -
  have 1: "py_in (ascii ''living'') (haystack names_living_bed_bath)"
    unfolding haystack_living_bed_bath by (simp add: py_in_ascii)
  have 2: "py_in (ascii ''bed'') (haystack names_living_bed_bath)"
    unfolding haystack_living_bed_bath by (simp add: py_in_ascii)
  have 3: "py_in (ascii ''bath'') (haystack names_living_bed_bath)"
    unfolding haystack_living_bed_bath by (simp add: py_in_ascii)
  have 4: "get_space_type names_living_bed_bath = Some (ascii ''Living Room'')"
    using 1 by (simp add: get_space_type_cascade keywords_of_simps)
  have 5: "ascii ''Living Room'' \<noteq> ascii ''Bedroom''" by (simp add: ascii_eq_iff)
  show ?thesis using 2 3 4 5 by (simp add: keywords_of_simps)
qed

section \<open>Properties of the numeric coercion\<close>


lemma ilog2_le: "n < 2 ^ Suc k \<Longrightarrow> ilog2 n \<le> k"
proof (induction k arbitrary: n)
  case 0
  then show ?case by (subst ilog2.simps) simp
next
  case (Suc k)
  show ?case
  proof (cases "n < 2")
    case True
    then show ?thesis by (subst ilog2.simps) simp
  next
    case False
    have "n div 2 < 2 ^ Suc k" using Suc.prems by simp
    then have "ilog2 (n div 2) \<le> k" by (rule Suc.IH)
    then show ?thesis using False by (subst ilog2.simps) simp
  qed
qed

lemma floor_log2_of_nat: "0 < n \<Longrightarrow> floor_log2 (of_nat n) = int (ilog2 n)"
  by (simp add: floor_log2_def)

lemma fl_by_exponent:
  assumes "x \<noteq> 0" and e: "e = max (floor_log2 \<bar>x\<bar>) (- 1022)"
  shows "1023 < e \<Longrightarrow> fl x = (if 0 < x then PosInf else NegInf)"
    and "e < 1023 \<Longrightarrow> \<exists>r. fl x = Finite r"
proof -
  have eq: "fl x =
    (if 1023 < e \<or> (e = 1023 \<and> \<bar>round_half_even (x / pow2 (e - 52))\<bar> = 2 ^ 53)
     then (if 0 < x then PosInf else NegInf)
     else Finite (of_int (round_half_even (x / pow2 (e - 52))) * pow2 (e - 52)))"
    unfolding fl_def Let_def e using assms(1) by (simp only: if_False)
  show "1023 < e \<Longrightarrow> fl x = (if 0 < x then PosInf else NegInf)"
    unfolding eq by (simp only: simp_thms if_True)
  show "e < 1023 \<Longrightarrow> \<exists>r. fl x = Finite r"
    unfolding eq by (cases "1023 < e") auto
qed


lemma fl_of_int_finite:
  assumes "\<bar>n\<bar> < 2 ^ 1023"
  shows "\<exists>r. fl (of_int n) = Finite r"
proof (cases "n = 0")
  case True
  then show ?thesis by (simp add: fl_def)
next
  case False
  define m where "m = nat \<bar>n\<bar>"
  have "int m < int (2 ^ 1023)" using assms by (simp add: m_def)
  then have "m < 2 ^ 1023" by linarith
  then have m2: "m < 2 ^ Suc 1022" by simp
  have m1: "0 < m" using False by (simp add: m_def)
  have abs: "\<bar>of_int n :: rat\<bar> = of_nat m"
    by (simp add: m_def flip: of_int_abs)
  have "floor_log2 \<bar>of_int n\<bar> = int (ilog2 m)"
    unfolding abs using m1 by (rule floor_log2_of_nat)
  moreover have "ilog2 m \<le> 1022" using m2 by (rule ilog2_le)
  ultimately have e: "max (floor_log2 \<bar>of_int n\<bar>) (- 1022) < 1023" by simp
  have nz: "(of_int n :: rat) \<noteq> 0" using False by simp
  show ?thesis using fl_by_exponent(2)[OF nz refl e] .
qed






text \<open>On the values of an IFC model the coercion always returns.\<close>

lemma py_float_sint: "\<exists>r. py_float (PyInt (sint (w :: 64 word))) = Inr (Finite r)"
proof -
  have "- (2 ^ 63) \<le> sint w" "sint w < 2 ^ 63"
    using sint_ge[of w] sint_lt[of w] by simp_all
  then have "\<bar>sint w\<bar> \<le> 2 ^ 63" by (simp add: abs_le_iff)
  moreover have "(2::int) ^ 63 < 2 ^ 1023" by (rule power_strict_increasing) simp_all
  ultimately have "\<bar>sint w\<bar> < 2 ^ 1023" by (rule le_less_trans)
  then obtain r where "fl (of_int (sint w)) = Finite r" using fl_of_int_finite by blast
  then show ?thesis by simp
qed

lemma py_float_simple:
  "(\<exists>f. py_float (py_of_simple x) = Inr f) \<or>
   (py_float (py_of_simple x) = Inl ValueError \<and> get_wrappedValue (py_of_simple x) = PyNone)"
proof (cases x)
  case (IfcInteger w)
  then show ?thesis using py_float_sint[of w] by auto
next
  case (IfcText parsed)
  then show ?thesis by (cases parsed) auto
qed auto

lemma py_of_simple_not_None: "py_of_simple x \<noteq> PyNone"
  by (cases x) auto

lemma to_float_simple: "\<exists>r. to_float (py_of_simple x) = Inr r"
  using py_float_simple[of x] py_of_simple_not_None[of x]
  by (auto simp: to_float_def)

lemma to_float_ifc_total: "\<exists>r. to_float (py_of_value v) = Inr r"
proof (cases v)
  case Unset
  then show ?thesis by (simp add: to_float_def)
next
  case (Plain x)
  then show ?thesis using to_float_simple by simp
next
  case (Instance w)
  show ?thesis
  proof (cases w)
    case None
    then show ?thesis using Instance by (simp add: to_float_def)
  next
    case (Some x)
    then show ?thesis
      using Instance py_float_simple[of x] py_of_simple_not_None[of x]
      by (auto simp: to_float_def)
  qed
qed




section \<open>Properties of the quantity extractor\<close>

lemma scan_quantities_find:
  "scan_quantities m qs =
     map_option (\<lambda>q. to_float (py_of_value (quantity_value m q))) (find (named_quantity m) qs)"
  by (induction qs) (auto simp: named_quantity_def quantity_value_def split: option.splits)

lemma find_append:
  "find P (xs @ ys) = (case find P xs of None \<Rightarrow> find P ys | Some x \<Rightarrow> Some x)"
  by (induction xs) auto

lemma scan_element_quantities_find:
  "scan_element_quantities m prop_defs =
     map_option (\<lambda>q. to_float (py_of_value (quantity_value m q)))
       (find (named_quantity m) (concat (map quantities_in prop_defs)))"
proof (induction prop_defs)
  case Nil
  then show ?case by simp
next
  case (Cons prop_def prop_defs)
  then show ?case
    by (cases prop_def) (auto simp: scan_quantities_find find_append split: option.splits)
qed

lemma scan_properties_find:
  "scan_properties m props =
     map_option (\<lambda>prop. to_float (py_of_value (NominalValue prop)))
       (find (coercible_property m) props)"
  by (induction props) (auto simp: coercible_property_def split: sum.splits option.splits)

lemma scan_property_sets_find:
  "scan_property_sets m prop_defs =
     map_option (\<lambda>prop. to_float (py_of_value (NominalValue prop)))
       (find (coercible_property m) (concat (map properties_in prop_defs)))"
proof (induction prop_defs)
  case Nil
  then show ?case by simp
next
  case (Cons prop_def prop_defs)
  then show ?case
    by (cases prop_def) (auto simp: scan_properties_find find_append split: option.splits)
qed

lemma extract_measure_find:
  "extract_measure m space =
     (case find (named_quantity m) (quantities_of space) of
        Some q \<Rightarrow> to_float (py_of_value (quantity_value m q))
      | None \<Rightarrow>
          (case find (coercible_property m) (properties_of space) of
             Some prop \<Rightarrow> to_float (py_of_value (NominalValue prop))
           | None \<Rightarrow> Inr None))"
  by (simp add: extract_measure_def scan_element_quantities_find scan_property_sets_find
      quantities_of_def properties_of_def split: option.splits)

text \<open>Evaluation at the example spaces.\<close>

lemma norm_text_names:
  "norm_text (Some (ascii ''NetFloorArea'')) = ascii ''netfloorarea''"
  "norm_text (Some (ascii ''GrossFloorArea'')) = ascii ''grossfloorarea''"
  "norm_text (Some (ascii ''Area (gross)'')) = ascii ''area (gross)''"
  "norm_text (Some (ascii ''Area'')) = ascii ''area''"
  "norm_text (Some (ascii ''ClearHeight'')) = ascii ''clearheight''"
  "norm_text (Some (ascii ''Height'')) = ascii ''height''"
  "norm_text (Some (ascii ''Ceiling height'')) = ascii ''ceiling height''"
  by (simp_all add: ascii_text_defs)

lemmas extract_defs = extract_area_m2_def extract_height_m_def extract_measure_def
  iter_property_defs_def space_with_def QTO_AREA_NAMES_def QTO_HEIGHT_NAMES_def to_float_def
  norm_text_names ascii_eq_iff py_in_ascii

lemma extract_area_both:
  "extract_area_m2 (space_with [net_floor_area_qto, gross_area_pset]) = Inr (Some (Finite (37 / 2)))"
  by (simp add: extract_defs net_floor_area_qto_def gross_area_pset_def)

lemma extract_area_pset_only:
  "extract_area_m2 (space_with [gross_area_pset]) = Inr (Some (Finite 99))"
  by (simp add: extract_defs gross_area_pset_def)

lemma extract_height_both:
  "extract_height_m (space_with [height_pset, clear_height_qto]) = Inr (Some (Finite (5 / 2)))"
  by (simp add: extract_defs height_pset_def clear_height_qto_def)

lemma extract_height_pset_only:
  "extract_height_m (space_with [height_pset]) = Inr (Some (Finite 3))"
  by (simp add: extract_defs height_pset_def)

lemma extract_measure_total: "\<exists>r. extract_measure m space = Inr r"
  unfolding extract_measure_find using to_float_ifc_total
  by (auto split: option.splits)

lemma named_quantity_area:
  "named_quantity AreaMeasure q \<longleftrightarrow>
     (\<exists>qname v. q = IfcQuantityArea qname v \<and>
        norm_text qname \<in> set (map ascii [''netfloorarea'', ''grossfloorarea'', ''floorarea'']))"
  by (cases q) (simp_all add: named_quantity_def QTO_AREA_NAMES_def)

lemma named_quantity_height:
  "named_quantity HeightMeasure q \<longleftrightarrow>
     (\<exists>qname v. q = IfcQuantityLength qname v \<and>
        norm_text qname \<in> set (map ascii [''height'', ''clearheight'', ''netheight'']))"
  by (cases q) (simp_all add: named_quantity_def QTO_HEIGHT_NAMES_def)

lemma coercible_property_iff:
  "coercible_property m prop \<longleftrightarrow>
     py_in (pset_keyword m) (norm_text (p_Name prop)) \<and>
     (\<exists>x. to_float (py_of_value (NominalValue prop)) = Inr (Some x))"
proof -
  obtain r where "to_float (py_of_value (NominalValue prop)) = Inr r"
    using to_float_ifc_total by blast
  then show ?thesis by (cases r) (simp_all add: coercible_property_def)
qed

text \<open>
  Claim C2. Extraction returns the coerced value of the first quantity of the wanted
  kind (area or length) whose normalized name is canonical, whatever the property sets
  hold; when there is no such quantity, the value of the first property whose
  normalized name contains the keyword and whose nominal value coerces to a float; and
  absent otherwise. It never raises. With \<^verbatim>\<open>NetFloorArea\<close> = 18.5 in a quantity set and
  \<^verbatim>\<open>Area (gross)\<close> = 99.0 in a property set the area is 18.5, with the property set alone
  it is 99.0; the same holds for the height with its names and keyword.
\<close>

theorem extract_precedence:
  "extract_measure m space =
     (case find (named_quantity m) (quantities_of space) of
        Some q \<Rightarrow> to_float (py_of_value (quantity_value m q))
      | None \<Rightarrow>
          (case find (coercible_property m) (properties_of space) of
             Some prop \<Rightarrow> to_float (py_of_value (NominalValue prop))
           | None \<Rightarrow> Inr None)) \<and>
   (\<exists>r. extract_measure m space = Inr r) \<and>
   extract_area_m2 space = extract_measure AreaMeasure space \<and>
   extract_height_m space = extract_measure HeightMeasure space \<and>
   (named_quantity AreaMeasure q \<longleftrightarrow>
     (\<exists>qname v. q = IfcQuantityArea qname v \<and>
        norm_text qname \<in> set (map ascii [''netfloorarea'', ''grossfloorarea'', ''floorarea'']))) \<and>
   (named_quantity HeightMeasure q \<longleftrightarrow>
     (\<exists>qname v. q = IfcQuantityLength qname v \<and>
        norm_text qname \<in> set (map ascii [''height'', ''clearheight'', ''netheight'']))) \<and>
   (coercible_property AreaMeasure prop \<longleftrightarrow>
     py_in (ascii ''area'') (norm_text (p_Name prop)) \<and>
     (\<exists>x. to_float (py_of_value (NominalValue prop)) = Inr (Some x))) \<and>
   (coercible_property HeightMeasure prop \<longleftrightarrow>
     py_in (ascii ''height'') (norm_text (p_Name prop)) \<and>
     (\<exists>x. to_float (py_of_value (NominalValue prop)) = Inr (Some x))) \<and>
   extract_area_m2 (space_with [net_floor_area_qto, gross_area_pset]) =
     Inr (Some (Finite (37 / 2))) \<and>
   extract_area_m2 (space_with [gross_area_pset]) = Inr (Some (Finite 99)) \<and>
   extract_height_m (space_with [height_pset, clear_height_qto]) =
     Inr (Some (Finite (5 / 2))) \<and>
   extract_height_m (space_with [height_pset]) = Inr (Some (Finite 3))"
proof -
  have 1: "coercible_property AreaMeasure prop \<longleftrightarrow>
     py_in (ascii ''area'') (norm_text (p_Name prop)) \<and>
     (\<exists>x. to_float (py_of_value (NominalValue prop)) = Inr (Some x))"
    using coercible_property_iff [of AreaMeasure "prop"] by simp
  have 2: "coercible_property HeightMeasure prop \<longleftrightarrow>
     py_in (ascii ''height'') (norm_text (p_Name prop)) \<and>
     (\<exists>x. to_float (py_of_value (NominalValue prop)) = Inr (Some x))"
    using coercible_property_iff [of HeightMeasure "prop"] by simp
  have 3: "extract_area_m2 space = extract_measure AreaMeasure space"
    "extract_height_m space = extract_measure HeightMeasure space"
    by (simp_all add: extract_area_m2_def extract_height_m_def)
  note facts = extract_measure_find [of m space] extract_measure_total [of m space] 1 2 3
      named_quantity_area [of q] named_quantity_height [of q]
      extract_area_both extract_area_pset_only extract_height_both extract_height_pset_only
  show ?thesis by (intro conjI) (fact facts)+
qed

text \<open>
  The theorem at the space with the height property set first and the quantity set
  second: the quantity still wins.
\<close>

theorem extract_precedence_witness:
  "find (named_quantity HeightMeasure) (quantities_of (space_with [height_pset, clear_height_qto])) =
     Some (IfcQuantityLength (Some (ascii ''ClearHeight'')) (Plain (IfcReal (Finite (5 / 2))))) \<and>
   extract_measure HeightMeasure (space_with [height_pset, clear_height_qto]) =
     Inr (Some (Finite (5 / 2)))"
proof -
  have f: "find (named_quantity HeightMeasure)
      (quantities_of (space_with [height_pset, clear_height_qto])) =
     Some (IfcQuantityLength (Some (ascii ''ClearHeight'')) (Plain (IfcReal (Finite (5 / 2)))))"
    by (simp add: quantities_of_def iter_property_defs_def space_with_def height_pset_def
        clear_height_qto_def named_quantity_def QTO_HEIGHT_NAMES_def norm_text_names
        ascii_eq_iff)
  have "extract_measure HeightMeasure (space_with [height_pset, clear_height_qto]) =
     to_float (py_of_value (quantity_value HeightMeasure
       (IfcQuantityLength (Some (ascii ''ClearHeight'')) (Plain (IfcReal (Finite (5 / 2)))))))"
    using extract_precedence [of HeightMeasure "space_with [height_pset, clear_height_qto]"]
    by (simp add: f)
  then show ?thesis using f by (simp add: quantity_value_def to_float_def)
qed

text \<open>
  Claim C3 fails on the code in step 1. A canonically named quantity whose value is
  unset, or a text that is not a number, ends the extraction with absent: neither the
  second canonical quantity (20.0, or 2.5 for the height) nor the property set (99.0)
  is looked at. Step 2 does continue: after a property \<^verbatim>\<open>Area\<close> with a malformed value
  the next property \<^verbatim>\<open>Area (gross)\<close> gives 99.0.
\<close>

theorem extract_stops_at_malformed_quantity:
  "extract_area_m2 (space_with [unset_area_qto, gross_area_pset]) = Inr None \<and>
   extract_area_m2 (space_with [text_area_qto, gross_area_pset]) = Inr None \<and>
   extract_height_m (space_with [unset_height_qto, height_pset]) = Inr None \<and>
   extract_area_m2 (space_with [malformed_area_pset]) = Inr (Some (Finite 99))"
proof -
  have 1: "extract_area_m2 (space_with [unset_area_qto, gross_area_pset]) = Inr None"
    by (simp add: extract_defs unset_area_qto_def gross_area_pset_def)
  have 2: "extract_area_m2 (space_with [text_area_qto, gross_area_pset]) = Inr None"
    by (simp add: extract_defs text_area_qto_def gross_area_pset_def)
  have 3: "extract_height_m (space_with [unset_height_qto, height_pset]) = Inr None"
    by (simp add: extract_defs unset_height_qto_def height_pset_def)
  have 4: "extract_area_m2 (space_with [malformed_area_pset]) = Inr (Some (Finite 99))"
    by (simp add: extract_defs malformed_area_pset_def)
  show ?thesis using 1 2 3 4 by simp
qed

section \<open>Properties of the compliance check\<close>

lemma extract_measured: "extract_measure m space = Inr (measured m space)"
  using extract_measure_total[of m space] by (auto simp: measured_def)

lemma space_result_snd:
  "snd (space_result space t a h) \<longleftrightarrow> space_reasons t a h = []"
  by (simp add: space_result_def Let_def split: prod.splits)

lemma check_spaces_eq:
  "check_spaces sps results passed failed =
     Inr (results @ map row_of sps,
          passed + length (filter passes sps),
          failed + length (filter (\<lambda>s. \<not> passes s) sps))"
proof (induction sps arbitrary: results passed failed)
  case Nil
  then show ?case by simp
next
  case (Cons space rest)
  obtain row is_pass where sr:
    "space_result space (get_space_type space) (measured AreaMeasure space)
       (measured HeightMeasure space) = (row, is_pass)"
    by (cases "space_result space (get_space_type space) (measured AreaMeasure space)
       (measured HeightMeasure space)")
  have row: "row = row_of space" using sr by (simp add: row_of_def)
  have ip: "is_pass \<longleftrightarrow> passes space"
    using sr space_result_snd[of space "get_space_type space" "measured AreaMeasure space"
      "measured HeightMeasure space"] by (simp add: passes_def reasons_of_def)
  show ?case
    by (simp add: extract_area_m2_def extract_height_m_def extract_measured sr Cons.IH row ip)
qed

lemma check_eq:
  "check_barcelona_space_compliance model =
     Inr (map row_of (spaces model) @
          [summary_result (length (spaces model))
             (length (filter passes (spaces model)))
             (length (filter (\<lambda>s. \<not> passes s) (spaces model)))])"
  by (simp add: check_barcelona_space_compliance_def check_spaces_eq)

lemma row_of_status:
  "check_status (row_of space) = (if passes space then ascii ''pass'' else ascii ''fail'')"
  by (simp add: row_of_def space_result_def Let_def passes_def reasons_of_def split: prod.splits)

lemma row_of_comment:
  "comment (row_of space) =
     Some (if passes space then ascii ''Meets minimum area and height requirements.''
           else py_join (ascii ''; '') (reasons_of space))"
  by (simp add: row_of_def space_result_def Let_def passes_def reasons_of_def split: prod.splits)

lemma row_of_type: "element_type (row_of space) = ascii ''IfcSpace''"
  by (simp add: row_of_def space_result_def Let_def split: prod.splits)

lemma row_of_log:
  "\<exists>l. log_json (row_of space) = Some (SpaceLog l) \<and>
       log_reasons l =
         (if passes space then [ascii ''Meets minimum area and height requirements.'']
          else reasons_of space) \<and>
       log_status l = (if passes space then ascii ''PASS'' else ascii ''FAIL'')"
  by (simp add: row_of_def space_result_def Let_def passes_def reasons_of_def split: prod.splits)

section \<open>Evaluation of the thresholds and of the formatted numbers\<close>

lemma fl_values:
  "fl 4 = Finite 4" "fl 9 = Finite 9" "fl 16 = Finite 16" "fl 8 = Finite 8" "fl 100 = Finite 100"
  "fl (15 / 10) = Finite (3 / 2)"
  "fl (23 / 10) = Finite (2589569785738035 / 1125899906842624)"
  "fl (26 / 10) = Finite (5854679515581645 / 2251799813685248)"
  by code_simp+

lemma round_half_even_numeral: "round_half_even (numeral k) = numeral k"
  by (simp add: round_half_even_def)

lemma round_half_even_zero: "round_half_even 0 = 0"
  by (simp add: round_half_even_def)

lemma replicate_numeral: "replicate (numeral k) x = x # replicate (pred_numeral k) x"
  by (simp add: numeral_eq_Suc)

lemma str_nat_digit: "n < 10 \<Longrightarrow> str_nat n = [48 + n]"
  by (subst str_nat.simps) simp

lemma str_nat_more: "10 \<le> n \<Longrightarrow> str_nat n = str_nat (n div 10) @ [48 + n mod 10]"
  by (subst str_nat.simps) simp

lemma format_3: "format_f 3 (Finite 3) = ascii ''3.000''"
  by (simp add: format_f_def round_half_even_numeral Let_def str_nat_digit str_nat_more ascii_def replicate_numeral)
lemma format_4: "format_f 3 (Finite 4) = ascii ''4.000''"
  by (simp add: format_f_def round_half_even_numeral Let_def str_nat_digit str_nat_more ascii_def replicate_numeral)

section \<open>The rows of the check and its summary\<close>


lemma status_distinct:
  "ascii ''pass'' \<noteq> ascii ''fail''"
  "ascii ''fail'' \<noteq> ascii ''pass''"
  "ascii ''IfcSpace'' \<noteq> ascii ''Summary''"
  "ascii ''No IfcSpace elements found'' \<noteq> ascii ''Computed from provided Barcelona rules''"
  by (simp_all add: ascii_eq_iff)

lemma summary_result_fields:
  "element_type (summary_result n p f) = ascii ''Summary''"
  "check_status (summary_result n p f) = (if f = 0 then ascii ''pass'' else ascii ''fail'')"
  "comment (summary_result n p f) =
     Some (if n = 0 then ascii ''No IfcSpace elements found''
           else ascii ''Computed from provided Barcelona rules'')"
  "log_json (summary_result n p f) =
     Some (SummaryLog
       \<lparr>total_spaces_input = n, total_spaces_checked = n, passed_count = p, failed_count = f,
        warnings_count = 0,
        compliance_rate_percent =
          py_round (if n > 0 then float_mul (int_truediv p n) (fl 100) else fl 0) 2\<rparr>)"
  by (simp_all add: summary_result_def Let_def)

lemma filter_split_length:
  "length (filter P xs) + length (filter (\<lambda>x. \<not> P x) xs) = length xs"
  by (induction xs) auto

lemma no_fail_iff:
  "length (filter (\<lambda>s. \<not> passes s) sps) = 0 \<longleftrightarrow>
     \<not> (\<exists>r\<in>set (map row_of sps). check_status r = ascii ''fail'')"
  by (auto simp: row_of_status status_distinct filter_empty_conv)

lemma pass_rows_count:
  "length (filter (\<lambda>r. check_status r = ascii ''pass'') (map row_of sps)) =
     length (filter passes sps)"
  by (induction sps) (auto simp: row_of_status status_distinct)

text \<open>
  Claim C9. For a model with N spaces the check returns N + 1 rows; the status of each
  of the first N rows is \<^verbatim>\<open>pass\<close> or \<^verbatim>\<open>fail\<close>; and in the summary payload of the last
  row the passed and failed counts add up to the number of spaces checked, which is N,
  and the warnings count is 0.
\<close>

theorem check_row_count_and_statuses:
  "\<exists>rows. check_barcelona_space_compliance model = Inr rows \<and>
     length rows = length (spaces model) + 1 \<and>
     (\<forall>i < length (spaces model).
        check_status (rows ! i) = ascii ''pass'' \<or> check_status (rows ! i) = ascii ''fail'') \<and>
     (\<forall>i < length (spaces model).
        check_status (rows ! i) \<notin> set (map ascii [''warning'', ''blocked'', ''log''])) \<and>
     (\<exists>s. log_json (last rows) = Some (SummaryLog s) \<and>
          passed_count s + failed_count s = total_spaces_checked s \<and>
          total_spaces_checked s = length (spaces model) \<and>
          total_spaces_input s = length (spaces model) \<and>
          warnings_count s = 0)"
proof -
  define sps where "sps = spaces model"
  define summary where "summary = summary_result (length sps) (length (filter passes sps))
             (length (filter (\<lambda>s. \<not> passes s) sps))"
  define rows where "rows = map row_of sps @ [summary]"
  have eq: "check_barcelona_space_compliance model = Inr rows"
    by (simp add: check_eq rows_def summary_def sps_def)
  have len: "length rows = length sps + 1" by (simp add: rows_def)
  have nth: "\<And>i. i < length sps \<Longrightarrow> rows ! i = row_of (sps ! i)"
    by (simp add: rows_def nth_append)
  have st: "\<forall>i < length sps.
        check_status (rows ! i) = ascii ''pass'' \<or> check_status (rows ! i) = ascii ''fail''"
    by (simp add: nth row_of_status)
  have st2: "\<forall>i < length sps.
        check_status (rows ! i) \<notin> set (map ascii [''warning'', ''blocked'', ''log''])"
    by (simp add: nth row_of_status ascii_eq_iff)
  have lst: "last rows = summary" by (simp add: rows_def)
  have log: "\<exists>s. log_json (last rows) = Some (SummaryLog s) \<and>
          passed_count s + failed_count s = total_spaces_checked s \<and>
          total_spaces_checked s = length sps \<and>
          total_spaces_input s = length sps \<and>
          warnings_count s = 0"
    unfolding lst summary_def summary_result_fields by (simp add: filter_split_length)
  show ?thesis using eq len st st2 log unfolding sps_def by blast
qed

text \<open>
  Claim C7. The rows the check returns are the rows of the spaces, in order, followed
  by one row of type \<^verbatim>\<open>Summary\<close>, the only one of that type. Its status is \<^verbatim>\<open>fail\<close> if
  the row of some space has status \<^verbatim>\<open>fail\<close> and \<^verbatim>\<open>pass\<close> otherwise, and its comment is
  one text when the model has no space and another one when it has.
\<close>

theorem check_one_summary_last:
  "\<exists>rows summary.
     check_barcelona_space_compliance model = Inr (rows @ [summary]) \<and>
     rows = map row_of (spaces model) \<and>
     (\<forall>r\<in>set rows. element_type r = ascii ''IfcSpace'') \<and>
     element_type summary = ascii ''Summary'' \<and>
     filter (\<lambda>r. element_type r = ascii ''Summary'') (rows @ [summary]) = [summary] \<and>
     check_status summary =
       (if \<exists>r\<in>set rows. check_status r = ascii ''fail'' then ascii ''fail'' else ascii ''pass'') \<and>
     comment summary =
       Some (if spaces model = [] then ascii ''No IfcSpace elements found''
             else ascii ''Computed from provided Barcelona rules'') \<and>
     ascii ''No IfcSpace elements found'' \<noteq> ascii ''Computed from provided Barcelona rules''"
proof -
  define sps where "sps = spaces model"
  define summary where "summary = summary_result (length sps) (length (filter passes sps))
             (length (filter (\<lambda>s. \<not> passes s) sps))"
  define rows where "rows = map row_of sps"
  have eq: "check_barcelona_space_compliance model = Inr (rows @ [summary])"
    by (simp add: check_eq rows_def summary_def sps_def)
  have ty: "\<forall>r\<in>set rows. element_type r = ascii ''IfcSpace''"
    by (auto simp: rows_def row_of_type)
  have sty: "element_type summary = ascii ''Summary''"
    by (simp add: summary_def summary_result_fields)
  have "filter (\<lambda>r. element_type r = ascii ''Summary'') rows = []"
    using ty by (auto simp: filter_empty_conv status_distinct)
  then have one: "filter (\<lambda>r. element_type r = ascii ''Summary'') (rows @ [summary]) = [summary]"
    using sty by simp
  have st: "check_status summary =
       (if \<exists>r\<in>set rows. check_status r = ascii ''fail'' then ascii ''fail'' else ascii ''pass'')"
    unfolding summary_def summary_result_fields rows_def no_fail_iff by simp
  have cm: "comment summary =
       Some (if sps = [] then ascii ''No IfcSpace elements found''
             else ascii ''Computed from provided Barcelona rules'')"
    by (simp add: summary_def summary_result_fields)
  show ?thesis using eq rows_def ty sty one st cm status_distinct(4) unfolding sps_def by blast
qed

end
